theory Spec2Isabelle
  imports Main "HOL-Library.Word"
begin

section \<open>LlamaFfnLayer: buffer management and kernel dispatch\<close>

text \<open>
  A shallow embedding of \<^verbatim>\<open>src/turbomind/models/llama/LlamaFfnLayer.cc\<close>.
  The layer owns three scratch pointers and two flags; everything else it does is a call
  to a collaborator (allocator, projection engine, activation kernel, synchronisation
  check, anomaly handler). Each such call is recorded, with the arguments the source
  passes, in a list of events kept in the layer state, oldest first. What a collaborator
  answers (the pointer an allocation returns, whether a synchronisation check finds a
  device error) is a parameter of the model. A C++ exception is an error value returned
  with the state reached so far. The profiling scopes (\<^verbatim>\<open>NvtxScope\<close>), the
  stream handle and the contents of device memory are left out.
\<close>

subsection \<open>Machine types\<close>

type_synonym ptr = "64 word"     \<comment> \<open>an address; \<open>0\<close> is \<^verbatim>\<open>nullptr\<close>\<close>
type_synonym size_t = "64 word"
type_synonym cint = "32 word"    \<comment> \<open>C \<^verbatim>\<open>int\<close>, read with \<open>sint\<close>\<close>

text \<open>The element type \<^verbatim>\<open>T\<close> of the three template instantiations at the end of the file.\<close>

datatype elem_type = Float | Half | BFloat16

fun sizeof_T :: "elem_type \<Rightarrow> size_t" where
  "sizeof_T Float = 4"
| "sizeof_T Half = 2"
| "sizeof_T BFloat16 = 2"

subsection \<open>Weights and tensors\<close>

text \<open>
  The weight structures are declared in a header that is not part of the sources at
  hand; the records carry the members that \<^verbatim>\<open>forward\<close> reads. \<open>lora_r\<close>
  is \<^verbatim>\<open>lora.r\<close> as \<^verbatim>\<open>allocateBuffer\<close> receives it in its
  \<^verbatim>\<open>size_t\<close> parameter, \<open>input_dims\<close> and \<open>output_dims\<close> are the
  dimensions as they enter the \<^verbatim>\<open>size_t\<close> products.
\<close>

record LlamaDenseWeight =
  kernel :: ptr
  input_dims :: size_t
  output_dims :: size_t
  lora_r :: size_t

record LlamaFfnWeight =
  gating :: LlamaDenseWeight
  intermediate :: LlamaDenseWeight
  output_w :: LlamaDenseWeight  \<comment> \<open>the member \<^verbatim>\<open>output\<close>\<close>
  fused_gating_intermediate :: LlamaDenseWeight
  inter_size :: cint
  is_fused_silu :: bool

text \<open>
  A tensor: its shape, its data pointer, and (for a host scalar such as
  \<^verbatim>\<open>layer_id\<close>) the \<^verbatim>\<open>int\<close> that \<^verbatim>\<open>getVal<int>\<close> reads.
\<close>

record Tensor =
  shape :: "size_t list"
  data :: ptr
  val :: cint

type_synonym TensorMap = "string \<rightharpoonup> Tensor"

datatype error = MissingKey string | BadShape | OutOfMemory | DeviceError

text \<open>
  Modelled from the spec: the tensor container is not among the sources. A named lookup
  of an absent required input is fatal (section 4.3 and 7 of the specification); a lookup
  with a default returns the default.
\<close>

definition at :: "TensorMap \<Rightarrow> string \<Rightarrow> error + Tensor" where
  "at m key = (case m key of None \<Rightarrow> Inl (MissingKey key) | Some t \<Rightarrow> Inr t)"

definition at_default :: "TensorMap \<Rightarrow> string \<Rightarrow> Tensor \<Rightarrow> Tensor" where
  "at_default m key d = (case m key of None \<Rightarrow> d | Some t \<Rightarrow> t)"

definition getVal :: "TensorMap \<Rightarrow> string \<Rightarrow> error + cint" where
  "getVal m key = (case m key of None \<Rightarrow> Inl (MissingKey key) | Some t \<Rightarrow> Inr (val t))"

text \<open>\<^verbatim>\<open>shape[0]\<close>; a tensor without dimensions is a malformed shape.\<close>

definition shape0 :: "Tensor \<Rightarrow> error + size_t" where
  "shape0 t = (case shape t of [] \<Rightarrow> Inl BadShape | n # _ \<Rightarrow> Inr n)"

text \<open>\<^verbatim>\<open>Tensor{MEMORY_GPU, TYPE_INVALID, {}, nullptr}\<close>\<close>

definition invalid_tensor :: Tensor where
  "invalid_tensor = \<lparr>shape = [], data = 0, val = 0\<rparr>"

subsection \<open>Diagnostic tags\<close>

text \<open>
  Modelled from the spec: \<^verbatim>\<open>Concat\<close> lives in \<^verbatim>\<open>llama_utils.h\<close>, which is
  not among the sources. The specification gives the tag as
  \<^verbatim>\<open>"<projection-name>_<layer_id>"\<close>, with the layer id in decimal.
\<close>

definition digit_char :: "nat \<Rightarrow> char" where
  "digit_char d = ''0123456789'' ! d"

fun digits10 :: "nat \<Rightarrow> string" where
  "digits10 n = (if n < 10 then [digit_char n] else digits10 (n div 10) @ [digit_char (n mod 10)])"

declare digits10.simps [simp del]

definition to_string :: "cint \<Rightarrow> string" where
  "to_string i = (if sint i < 0 then CHR ''-'' # digits10 (nat (- sint i)) else digits10 (nat (sint i)))"

definition Concat :: "string \<Rightarrow> cint \<Rightarrow> string" where
  "Concat key layer_id = key @ ''_'' @ to_string layer_id"

subsection \<open>Collaborator calls\<close>

datatype linear_type = kGemm | kFusedSiluFfn

text \<open>
  One constructor per collaborator entry point, with the arguments in the order of the
  call. In \<open>LinearForward\<close> the input is the pointer with its read stride (a bare
  pointer has stride \<open>0\<close>), and the last two arguments are the adapter workspace and
  the per-token mask: \<open>None\<close> when the call does not pass them. The third argument
  of \<open>ReMalloc\<close> is the zero-fill flag, \<open>None\<close> when left to its default.
\<close>

datatype event =
    ReMalloc ptr size_t "bool option"
  | Free ptr
  | LinearForward ptr ptr cint size_t LlamaDenseWeight linear_type "ptr option" "ptr option"
  | GenericActivation ptr ptr cint cint cint
  | SyncCheck
  | CountAndFix ptr size_t string cint

text \<open>
  The behaviour of the collaborators that the layer depends on: what the allocator
  returns (\<open>None\<close>: it cannot satisfy the request) and how its own state moves, and
  whether the device is found healthy at a synchronisation check, given the calls issued
  so far.
\<close>

record 'a collaborators =
  reMalloc :: "'a \<Rightarrow> ptr \<Rightarrow> size_t \<Rightarrow> bool option \<Rightarrow> (ptr \<times> 'a) option"
  free :: "'a \<Rightarrow> ptr \<Rightarrow> 'a"
  device_ok :: "event list \<Rightarrow> bool"

subsection \<open>The layer\<close>

record 'a LlamaFfnLayer =
  gating_buf :: ptr
  inter_buf :: ptr
  lora_buf :: ptr
  is_allocate_buffer :: bool
  is_free_buffer_after_forward :: bool
  dtype :: elem_type
  allocator :: 'a
  trace :: "event list"

type_synonym 'a outcome = "error option \<times> 'a LlamaFfnLayer"

definition issue :: "event \<Rightarrow> 'a LlamaFfnLayer \<Rightarrow> 'a LlamaFfnLayer" where
  "issue e s = s\<lparr>trace := trace s @ [e]\<rparr>"

text \<open>Sequencing: an error (a C++ exception) skips the rest and keeps the state reached.\<close>

definition and_then :: "'a outcome \<Rightarrow> ('a LlamaFfnLayer \<Rightarrow> 'a outcome) \<Rightarrow> 'a outcome" where
  "and_then r f = (case r of (None, s) \<Rightarrow> f s | (Some e, s) \<Rightarrow> (Some e, s))"

definition sync_check_cuda_error :: "'a collaborators \<Rightarrow> 'a LlamaFfnLayer \<Rightarrow> 'a outcome" where
  "sync_check_cuda_error E s =
     (let s' = issue SyncCheck s
      in (if device_ok E (trace s') then None else Some DeviceError, s'))"

definition count_and_fix :: "ptr \<Rightarrow> size_t \<Rightarrow> string \<Rightarrow> cint \<Rightarrow> 'a LlamaFfnLayer \<Rightarrow> 'a LlamaFfnLayer" where
  "count_and_fix p n tag level s = issue (CountAndFix p n tag level) s"

definition linear_forward ::
  "ptr \<Rightarrow> ptr \<Rightarrow> cint \<Rightarrow> size_t \<Rightarrow> LlamaDenseWeight \<Rightarrow> linear_type \<Rightarrow> ptr option \<Rightarrow> ptr option
   \<Rightarrow> 'a LlamaFfnLayer \<Rightarrow> 'a LlamaFfnLayer" where
  "linear_forward out inp pitch n w ty lora_buff lora_mask s =
     issue (LinearForward out inp pitch n w ty lora_buff lora_mask) s"

text \<open>\<^verbatim>\<open>allocateBuffer\<close>, lines 28 to 42.\<close>

definition allocateBuffer ::
  "'a collaborators \<Rightarrow> size_t \<Rightarrow> cint \<Rightarrow> size_t \<Rightarrow> size_t \<Rightarrow> size_t \<Rightarrow> 'a LlamaFfnLayer \<Rightarrow> 'a outcome" where
  "allocateBuffer E token_num inter_sz inter_buf_factor gating_lora_r inter_lora_r s =
     (let sz = token_num * scast inter_sz;
          bytes = sizeof_T (dtype s) * sz * inter_buf_factor;
          s0 = issue (ReMalloc (gating_buf s) bytes (Some False)) s
      in case reMalloc E (allocator s0) (gating_buf s0) bytes (Some False) of
           None \<Rightarrow> (Some OutOfMemory, s0)
         | Some (p, a) \<Rightarrow>
             (let s1 = s0\<lparr>gating_buf := p, inter_buf := p + sizeof_T (dtype s) * sz, allocator := a\<rparr>
              in if gating_lora_r + inter_lora_r \<noteq> 0
                 then (let lbytes = sizeof_T (dtype s) * token_num * (gating_lora_r + inter_lora_r);
                           s2 = issue (ReMalloc (lora_buf s1) lbytes None) s1
                       in case reMalloc E (allocator s2) (lora_buf s2) lbytes None of
                            None \<Rightarrow> (Some OutOfMemory, s2)
                          | Some (q, a') \<Rightarrow>
                              (None, s2\<lparr>lora_buf := q, allocator := a', is_allocate_buffer := True\<rparr>))
                 else (None, s1\<lparr>is_allocate_buffer := True\<rparr>)))"

text \<open>
  \<^verbatim>\<open>freeBuffer\<close>, lines 44 to 52. Modelled from the spec: the allocator's release
  takes the address of the handle and leaves the handle empty.
\<close>

definition freeBuffer :: "'a collaborators \<Rightarrow> 'a LlamaFfnLayer \<Rightarrow> 'a LlamaFfnLayer" where
  "freeBuffer E s =
     (if is_allocate_buffer s
      then (let s1 = (issue (Free (gating_buf s)) s)
                       \<lparr>allocator := free E (allocator s) (gating_buf s), gating_buf := 0\<rparr>;
                s2 = (issue (Free (lora_buf s1)) s1)
                       \<lparr>allocator := free E (allocator s1) (lora_buf s1), lora_buf := 0\<rparr>
            in s2\<lparr>is_allocate_buffer := False\<rparr>)
      else s)"

text \<open>\<^verbatim>\<open>activation\<close>, lines 54 to 69.\<close>

definition activation :: "'a collaborators \<Rightarrow> cint \<Rightarrow> cint \<Rightarrow> bool \<Rightarrow> 'a LlamaFfnLayer \<Rightarrow> 'a outcome" where
  "activation E token_num inter_sz is_chunked s =
     (if is_chunked
      then (let s = issue (GenericActivation (gating_buf s)
                             (gating_buf s + sizeof_T (dtype s) * scast inter_sz)
                             (inter_sz * 2) token_num inter_sz) s
            in sync_check_cuda_error E s)
      else (let s = issue (GenericActivation (gating_buf s) (inter_buf s) inter_sz token_num inter_sz) s
            in sync_check_cuda_error E s))"

text \<open>The fused branch of \<^verbatim>\<open>forward\<close>, lines 98 to 111.\<close>

definition fused_silu_ffn ::
  "'a collaborators \<Rightarrow> size_t \<Rightarrow> cint \<Rightarrow> cint \<Rightarrow> ptr \<Rightarrow> LlamaFfnWeight \<Rightarrow> 'a LlamaFfnLayer \<Rightarrow> 'a outcome" where
  "fused_silu_ffn E token_num inter_sz layer_id ffn_input_data weights s =
     (let ty = (if is_fused_silu weights then kFusedSiluFfn else kGemm);
          s = linear_forward (gating_buf s) ffn_input_data 0 token_num
                (fused_gating_intermediate weights) ty None None s
      in and_then (sync_check_cuda_error E s)
      (\<lambda>s. and_then
               (if \<not> is_fused_silu weights
                then activation E (ucast token_num) inter_sz True s
                else (None, s))
      (\<lambda>s. (None, count_and_fix (gating_buf s) (token_num * input_dims (output_w weights))
                     (Concat ''w1_w3_silu'' layer_id) 3 s))))"

text \<open>The unfused branch of \<^verbatim>\<open>forward\<close>, lines 112 to 143.\<close>

definition unfused_ffn ::
  "'a collaborators \<Rightarrow> size_t \<Rightarrow> cint \<Rightarrow> cint \<Rightarrow> ptr \<Rightarrow> ptr \<Rightarrow> LlamaFfnWeight \<Rightarrow> 'a LlamaFfnLayer \<Rightarrow> 'a outcome" where
  "unfused_ffn E token_num inter_sz layer_id ffn_input_data lora_mask weights s =
     (let s = linear_forward (gating_buf s) ffn_input_data 0 token_num (gating weights) kGemm
                (Some (lora_buf s)) (Some lora_mask) s
      in and_then (sync_check_cuda_error E s)
      (\<lambda>s. let s = count_and_fix (gating_buf s) (token_num * output_dims (gating weights))
                      (Concat ''w1'' layer_id) 3 s;
                s = linear_forward (inter_buf s) ffn_input_data 0 token_num (intermediate weights) kGemm
                      (Some (lora_buf s)) (Some lora_mask) s
            in and_then (sync_check_cuda_error E s)
      (\<lambda>s. let s = count_and_fix (inter_buf s) (token_num * output_dims (intermediate weights))
                      (Concat ''w3'' layer_id) 3 s
            in and_then (activation E (ucast token_num) inter_sz False s)
      (\<lambda>s. (None, count_and_fix (gating_buf s) (token_num * input_dims (output_w weights))
                     (Concat ''act'' layer_id) 3 s)))))"

text \<open>The down-projection of \<^verbatim>\<open>forward\<close> with its diagnostics, lines 145 to 158.\<close>

definition w2 ::
  "'a collaborators \<Rightarrow> size_t \<Rightarrow> cint \<Rightarrow> cint \<Rightarrow> ptr \<Rightarrow> ptr \<Rightarrow> LlamaFfnWeight \<Rightarrow> 'a LlamaFfnLayer \<Rightarrow> 'a outcome" where
  "w2 E token_num inter_sz layer_id ffn_output_data lora_mask weights s =
     (let pitch = (if kernel (fused_gating_intermediate weights) \<noteq> 0 \<and> \<not> is_fused_silu weights
                   then inter_sz * 2 else 0);
          s = linear_forward ffn_output_data (gating_buf s) pitch token_num (output_w weights) kGemm
                (Some (lora_buf s)) (Some lora_mask) s
      in and_then (sync_check_cuda_error E s)
      (\<lambda>s. (None, count_and_fix ffn_output_data (token_num * output_dims (output_w weights))
                     (Concat ''w2'' layer_id) 3 s)))"

text \<open>\<^verbatim>\<open>forward\<close>, lines 71 to 163.\<close>

definition forward ::
  "'a collaborators \<Rightarrow> TensorMap \<Rightarrow> TensorMap \<Rightarrow> LlamaFfnWeight \<Rightarrow> 'a LlamaFfnLayer \<Rightarrow> 'a outcome" where
  "forward E output_tensors input_tensors weights s =
     (case at input_tensors ''ffn_input'' of
        Inl e \<Rightarrow> (Some e, s)
      | Inr ffn_in \<Rightarrow>
     (case shape0 ffn_in of
        Inl e \<Rightarrow> (Some e, s)
      | Inr token_num \<Rightarrow>
     (case getVal input_tensors ''layer_id'' of
        Inl e \<Rightarrow> (Some e, s)
      | Inr layer_id \<Rightarrow>
     (let inter_sz = inter_size weights;
          fused_silu = (kernel (fused_gating_intermediate weights) \<noteq> 0 \<and> is_fused_silu weights)
      in and_then
           (allocateBuffer E token_num inter_sz (if fused_silu then 1 else 2)
              (lora_r (gating weights)) (lora_r (intermediate weights)) s)
           (\<lambda>s. let ffn_input_data = data ffn_in
                in case at output_tensors ''ffn_output'' of
                     Inl e \<Rightarrow> (Some e, s)
                   | Inr ffn_out \<Rightarrow>
                (let ffn_output_data = data ffn_out;
                     lora_mask = data (at_default input_tensors ''lora_mask'' invalid_tensor)
                 in and_then
                      (if kernel (fused_gating_intermediate weights) \<noteq> 0
                       then fused_silu_ffn E token_num inter_sz layer_id ffn_input_data weights s
                       else unfused_ffn E token_num inter_sz layer_id ffn_input_data lora_mask weights s)
                      (\<lambda>s. and_then
                             (w2 E token_num inter_sz layer_id ffn_output_data lora_mask weights s)
                             (\<lambda>s. (None, if is_free_buffer_after_forward s then freeBuffer E s else s)))))))))"

subsection \<open>The pipeline states of the specification\<close>

text \<open>
  Section 4.3 of the specification names three states and selects one from the weight
  configuration: a fused gate+up descriptor that bakes in the activation, a fused
  descriptor that does not, and no fused descriptor. The source has no such type; it
  tests the descriptor and the flag where it needs them.
\<close>

datatype ffn_state = FUSED_SILU | FUSED_UNACTIVATED | UNFUSED

definition spec_state :: "LlamaFfnWeight \<Rightarrow> ffn_state" where
  "spec_state weights =
     (if kernel (fused_gating_intermediate weights) \<noteq> 0 \<and> is_fused_silu weights then FUSED_SILU
      else if kernel (fused_gating_intermediate weights) \<noteq> 0 then FUSED_UNACTIVATED
      else UNFUSED)"

subsection \<open>Observing a call\<close>

text \<open>The collaborator calls issued between two states of the layer.\<close>

definition calls_since :: "'a LlamaFfnLayer \<Rightarrow> 'a LlamaFfnLayer \<Rightarrow> event list" where
  "calls_since s s' = drop (length (trace s)) (trace s')"

fun is_activation :: "event \<Rightarrow> bool" where
  "is_activation (GenericActivation a b stride n d) = True"
| "is_activation e = False"

fun is_projection :: "event \<Rightarrow> bool" where
  "is_projection (LinearForward out inp pitch n w ty lb lm) = True"
| "is_projection e = False"

fun is_diagnostic :: "event \<Rightarrow> bool" where
  "is_diagnostic (CountAndFix p n tag level) = True"
| "is_diagnostic e = False"

fun is_allocation :: "event \<Rightarrow> bool" where
  "is_allocation (ReMalloc p n z) = True"
| "is_allocation e = False"

fun is_release :: "event \<Rightarrow> bool" where
  "is_release (Free p) = True"
| "is_release e = False"

fun is_pipeline_step :: "event \<Rightarrow> bool" where
  "is_pipeline_step (LinearForward out inp pitch n w ty lb lm) = True"
| "is_pipeline_step (GenericActivation a b stride n d) = True"
| "is_pipeline_step (CountAndFix p n tag level) = True"
| "is_pipeline_step e = False"

text \<open>The adapter workspace and the per-token mask that a projection call passes.\<close>

fun adapter_args :: "event \<Rightarrow> ptr option \<times> ptr option" where
  "adapter_args (LinearForward out inp pitch n w ty lb lm) = (lb, lm)"
| "adapter_args e = (None, None)"

text \<open>
  A projection call carries no adapter when it passes neither argument, or passes
  \<^verbatim>\<open>nullptr\<close> for it.
\<close>

definition carries_no_adapter :: "event \<Rightarrow> bool" where
  "carries_no_adapter e =
     (fst (adapter_args e) \<in> {None, Some 0} \<and> snd (adapter_args e) \<in> {None, Some 0})"


text \<open>
  Every projection and every activation is followed, once its synchronisation check is
  over, by a call of the anomaly handler.
\<close>

fun diagnosed_after_each_stage :: "event list \<Rightarrow> bool" where
  "diagnosed_after_each_stage [] = True"
| "diagnosed_after_each_stage (e # t) =
     ((if is_projection e \<or> is_activation e
       then (case dropWhile (\<lambda>x. x = SyncCheck) t of [] \<Rightarrow> False | d # _ \<Rightarrow> is_diagnostic d)
       else True)
      \<and> diagnosed_after_each_stage t)"

text \<open>
  The state in which \<^verbatim>\<open>forward\<close> leaves the scratch pointers once
  \<^verbatim>\<open>allocateBuffer\<close> has returned, for a batch of \<open>token_num\<close> tokens.
\<close>

definition allocated ::
  "'a collaborators \<Rightarrow> size_t \<Rightarrow> LlamaFfnWeight \<Rightarrow> 'a LlamaFfnLayer \<Rightarrow> 'a LlamaFfnLayer" where
  "allocated E token_num weights s =
     snd (allocateBuffer E token_num (inter_size weights)
            (if kernel (fused_gating_intermediate weights) \<noteq> 0 \<and> is_fused_silu weights then 1 else 2)
            (lora_r (gating weights)) (lora_r (intermediate weights)) s)"

subsection \<open>A test double for the allocator\<close>

text \<open>
  Modelled from the spec: the allocator is not among the sources. Section 4.1 and 6 of
  the specification: an acquisition with an existing handle keeps the region when it is
  large enough and otherwise hands out a fresh, larger one; a release forgets the region.
  It is used to run the layer on concrete inputs.
\<close>

record pool =
  regions :: "(ptr \<times> size_t) list"
  next_addr :: ptr

definition pool_malloc :: "pool \<Rightarrow> size_t \<Rightarrow> ptr \<times> pool" where
  "pool_malloc a n = (next_addr a, \<lparr>regions = (next_addr a, n) # regions a, next_addr = next_addr a + n + 32\<rparr>)"

definition pool_free :: "pool \<Rightarrow> ptr \<Rightarrow> pool" where
  "pool_free a p = a\<lparr>regions := filter (\<lambda>r. fst r \<noteq> p) (regions a)\<rparr>"

definition pool_reMalloc :: "pool \<Rightarrow> ptr \<Rightarrow> size_t \<Rightarrow> bool option \<Rightarrow> (ptr \<times> pool) option" where
  "pool_reMalloc a p n z =
     (case map_of (regions a) p of
        Some m \<Rightarrow> if n \<le> m then Some (p, a) else Some (pool_malloc (pool_free a p) n)
      | None \<Rightarrow> Some (pool_malloc a n))"

definition test_double :: "pool collaborators" where
  "test_double = \<lparr>reMalloc = pool_reMalloc, free = pool_free, device_ok = (\<lambda>t. True)\<rparr>"

text \<open>A freshly constructed layer: no buffer held.\<close>

definition new_layer :: "elem_type \<Rightarrow> bool \<Rightarrow> pool LlamaFfnLayer" where
  "new_layer ty free_after =
     \<lparr>gating_buf = 0, inter_buf = 0, lora_buf = 0, is_allocate_buffer = False,
      is_free_buffer_after_forward = free_after, dtype = ty,
      allocator = \<lparr>regions = [], next_addr = 4096\<rparr>, trace = []\<rparr>"

text \<open>
  Concrete inputs: four tokens, hidden size 8, intermediate size 16, layer 7; the input at
  address 256, the output at 512, the optional mask at 768.
\<close>

definition dense :: "ptr \<Rightarrow> size_t \<Rightarrow> size_t \<Rightarrow> size_t \<Rightarrow> LlamaDenseWeight" where
  "dense k i out r = \<lparr>kernel = k, input_dims = i, output_dims = out, lora_r = r\<rparr>"

definition test_weights :: "ptr \<Rightarrow> bool \<Rightarrow> size_t \<Rightarrow> size_t \<Rightarrow> LlamaFfnWeight" where
  "test_weights fused_kernel silu gate_rank up_rank =
     \<lparr>gating = dense 16 8 16 gate_rank, intermediate = dense 32 8 16 up_rank,
      output_w = dense 48 16 8 0, fused_gating_intermediate = dense fused_kernel 8 32 0,
      inter_size = 16, is_fused_silu = silu\<rparr>"

definition test_inputs :: TensorMap where
  "test_inputs = [''ffn_input'' \<mapsto> \<lparr>shape = [4, 8], data = 256, val = 0\<rparr>,
                  ''layer_id'' \<mapsto> \<lparr>shape = [1], data = 0, val = 7\<rparr>]"

definition test_inputs_masked :: TensorMap where
  "test_inputs_masked = test_inputs(''lora_mask'' \<mapsto> \<lparr>shape = [4], data = 768, val = 0\<rparr>)"

definition test_inputs_no_ffn_input :: TensorMap where
  "test_inputs_no_ffn_input = [''layer_id'' \<mapsto> \<lparr>shape = [1], data = 0, val = 7\<rparr>]"

definition test_outputs :: TensorMap where
  "test_outputs = [''ffn_output'' \<mapsto> \<lparr>shape = [4, 8], data = 512, val = 0\<rparr>]"

section \<open>What a call that returns has done\<close>

text \<open>
  Each block of \<^verbatim>\<open>forward\<close>, when it returns without an error, has appended a
  fixed list of calls to the trace and changed nothing else.
\<close>

lemma and_then_ok:
  "and_then r f = (None, s') \<longleftrightarrow> (\<exists>s1. r = (None, s1) \<and> f s1 = (None, s'))"
  by (cases r) (auto simp: and_then_def split: option.splits)

lemma sync_ok:
  "sync_check_cuda_error E s = (None, s') \<Longrightarrow> s' = s\<lparr>trace := trace s @ [SyncCheck]\<rparr>"
  by (auto simp: sync_check_cuda_error_def issue_def Let_def split: if_splits)

lemma activation_ok:
  assumes "activation E n i c s = (None, s')"
  shows "s' = s\<lparr>trace := trace s @
            [if c then GenericActivation (gating_buf s) (gating_buf s + sizeof_T (dtype s) * scast i) (i * 2) n i
             else GenericActivation (gating_buf s) (inter_buf s) i n i, SyncCheck]\<rparr>"
  using assms by (auto simp: activation_def issue_def Let_def dest!: sync_ok split: if_splits)

lemma fused_silu_ffn_ok:
  assumes "fused_silu_ffn E n i lid inp w s = (None, s')"
  shows "s' = s\<lparr>trace := trace s @
            LinearForward (gating_buf s) inp 0 n (fused_gating_intermediate w)
              (if is_fused_silu w then kFusedSiluFfn else kGemm) None None
            # SyncCheck
            # (if is_fused_silu w then []
               else [GenericActivation (gating_buf s) (gating_buf s + sizeof_T (dtype s) * scast i)
                       (i * 2) (ucast n) i, SyncCheck])
            @ [CountAndFix (gating_buf s) (n * input_dims (output_w w)) (Concat ''w1_w3_silu'' lid) 3]\<rparr>"
  using assms
  by (auto simp: fused_silu_ffn_def and_then_ok linear_forward_def count_and_fix_def issue_def Let_def
           dest!: sync_ok activation_ok split: if_splits)

lemma unfused_ffn_ok:
  assumes "unfused_ffn E n i lid inp m w s = (None, s')"
  shows "s' = s\<lparr>trace := trace s @
            [LinearForward (gating_buf s) inp 0 n (gating w) kGemm (Some (lora_buf s)) (Some m),
             SyncCheck,
             CountAndFix (gating_buf s) (n * output_dims (gating w)) (Concat ''w1'' lid) 3,
             LinearForward (inter_buf s) inp 0 n (intermediate w) kGemm (Some (lora_buf s)) (Some m),
             SyncCheck,
             CountAndFix (inter_buf s) (n * output_dims (intermediate w)) (Concat ''w3'' lid) 3,
             GenericActivation (gating_buf s) (inter_buf s) i (ucast n) i,
             SyncCheck,
             CountAndFix (gating_buf s) (n * input_dims (output_w w)) (Concat ''act'' lid) 3]\<rparr>"
  using assms
  by (auto simp: unfused_ffn_def and_then_ok linear_forward_def count_and_fix_def issue_def Let_def
           dest!: sync_ok activation_ok)

lemma w2_ok:
  assumes "w2 E n i lid out m w s = (None, s')"
  shows "s' = s\<lparr>trace := trace s @
            [LinearForward out (gating_buf s)
               (if kernel (fused_gating_intermediate w) \<noteq> 0 \<and> \<not> is_fused_silu w then i * 2 else 0)
               n (output_w w) kGemm (Some (lora_buf s)) (Some m),
             SyncCheck,
             CountAndFix out (n * output_dims (output_w w)) (Concat ''w2'' lid) 3]\<rparr>"
  using assms
  by (auto simp: w2_def and_then_ok linear_forward_def count_and_fix_def issue_def Let_def
           dest!: sync_ok split: if_splits)

lemma allocateBuffer_ok:
  assumes "allocateBuffer E n i f rg ri s = (None, s1)"
  shows "trace s1 = trace s @ ReMalloc (gating_buf s) (sizeof_T (dtype s) * (n * scast i) * f) (Some False)
            # (if rg + ri \<noteq> 0 then [ReMalloc (lora_buf s) (sizeof_T (dtype s) * n * (rg + ri)) None] else [])"
    and "inter_buf s1 = gating_buf s1 + sizeof_T (dtype s) * (n * scast i)"
    and "is_allocate_buffer s1"
    and "dtype s1 = dtype s"
    and "is_free_buffer_after_forward s1 = is_free_buffer_after_forward s"
    and "rg + ri = 0 \<Longrightarrow> lora_buf s1 = lora_buf s"
    and "\<exists>a. reMalloc E (allocator s) (gating_buf s) (sizeof_T (dtype s) * (n * scast i) * f) (Some False)
            = Some (gating_buf s1, a)"
  using assms
  by (auto simp: allocateBuffer_def issue_def Let_def split: option.splits if_splits)

lemma allocateBuffer_workspace:
  assumes "allocateBuffer E n i f rg ri s = (None, s1)" and "rg + ri \<noteq> 0"
  shows "\<exists>a a'.
           reMalloc E (allocator s) (gating_buf s) (sizeof_T (dtype s) * (n * scast i) * f) (Some False)
             = Some (gating_buf s1, a)
         \<and> reMalloc E a (lora_buf s) (sizeof_T (dtype s) * n * (rg + ri)) None = Some (lora_buf s1, a')"
  using assms
  by (auto simp: allocateBuffer_def issue_def Let_def split: option.splits if_splits)

lemma forward_ok:
  assumes "input_tensors ''ffn_input'' = Some ffn_in" and "shape ffn_in = n # dims"
    and "input_tensors ''layer_id'' = Some lid"
    and "forward E output_tensors input_tensors w s = (None, s')"
  shows "\<exists>ffn_out s2 s3.
           output_tensors ''ffn_output'' = Some ffn_out
         \<and> allocateBuffer E n (inter_size w)
              (if kernel (fused_gating_intermediate w) \<noteq> 0 \<and> is_fused_silu w then 1 else 2)
              (lora_r (gating w)) (lora_r (intermediate w)) s = (None, allocated E n w s)
         \<and> (if kernel (fused_gating_intermediate w) \<noteq> 0
             then fused_silu_ffn E n (inter_size w) (val lid) (data ffn_in) w (allocated E n w s)
             else unfused_ffn E n (inter_size w) (val lid) (data ffn_in)
                    (data (at_default input_tensors ''lora_mask'' invalid_tensor)) w (allocated E n w s))
            = (None, s2)
         \<and> w2 E n (inter_size w) (val lid) (data ffn_out)
              (data (at_default input_tensors ''lora_mask'' invalid_tensor)) w s2 = (None, s3)
         \<and> s' = (if is_free_buffer_after_forward s3 then freeBuffer E s3 else s3)"
  using assms
  by (auto simp: forward_def at_def shape0_def getVal_def and_then_ok allocated_def Let_def
           split: sum.splits option.splits list.splits)

lemma forward_allocated:
  assumes "input_tensors ''ffn_input'' = Some ffn_in" and "shape ffn_in = n # dims"
    and "input_tensors ''layer_id'' = Some lid"
    and "forward E output_tensors input_tensors w s = (None, s')"
  shows "allocateBuffer E n (inter_size w)
           (if kernel (fused_gating_intermediate w) \<noteq> 0 \<and> is_fused_silu w then 1 else 2)
           (lora_r (gating w)) (lora_r (intermediate w)) s = (None, allocated E n w s)"
  using forward_ok [OF assms] by auto

lemma forward_final:
  assumes "input_tensors ''ffn_input'' = Some ffn_in" and "shape ffn_in = n # dims"
    and "input_tensors ''layer_id'' = Some lid"
    and "output_tensors ''ffn_output'' = Some ffn_out"
    and "forward E output_tensors input_tensors w s = (None, s')"
  shows "s' =
    (let s1 = allocated E n w s;
         m = data (at_default input_tensors ''lora_mask'' invalid_tensor);
         s3 = s1\<lparr>trace := trace s1 @
            (if kernel (fused_gating_intermediate w) \<noteq> 0
             then LinearForward (gating_buf s1) (data ffn_in) 0 n (fused_gating_intermediate w)
                    (if is_fused_silu w then kFusedSiluFfn else kGemm) None None
                  # SyncCheck
                  # (if is_fused_silu w then []
                     else [GenericActivation (gating_buf s1)
                             (gating_buf s1 + sizeof_T (dtype s) * scast (inter_size w))
                             (inter_size w * 2) (ucast n) (inter_size w), SyncCheck])
                  @ [CountAndFix (gating_buf s1) (n * input_dims (output_w w))
                       (Concat ''w1_w3_silu'' (val lid)) 3]
             else [LinearForward (gating_buf s1) (data ffn_in) 0 n (gating w) kGemm
                     (Some (lora_buf s1)) (Some m),
                   SyncCheck,
                   CountAndFix (gating_buf s1) (n * output_dims (gating w)) (Concat ''w1'' (val lid)) 3,
                   LinearForward (inter_buf s1) (data ffn_in) 0 n (intermediate w) kGemm
                     (Some (lora_buf s1)) (Some m),
                   SyncCheck,
                   CountAndFix (inter_buf s1) (n * output_dims (intermediate w)) (Concat ''w3'' (val lid)) 3,
                   GenericActivation (gating_buf s1) (inter_buf s1) (inter_size w) (ucast n) (inter_size w),
                   SyncCheck,
                   CountAndFix (gating_buf s1) (n * input_dims (output_w w)) (Concat ''act'' (val lid)) 3])
            @ [LinearForward (data ffn_out) (gating_buf s1)
                 (if kernel (fused_gating_intermediate w) \<noteq> 0 \<and> \<not> is_fused_silu w
                  then inter_size w * 2 else 0)
                 n (output_w w) kGemm (Some (lora_buf s1)) (Some m),
               SyncCheck,
               CountAndFix (data ffn_out) (n * output_dims (output_w w)) (Concat ''w2'' (val lid)) 3]\<rparr>
     in if is_free_buffer_after_forward s then freeBuffer E s3 else s3)"
proof -
  from forward_ok [OF assms(1,2,3,5)] assms(4)
  obtain s2 s3 where
    alloc: "allocateBuffer E n (inter_size w)
              (if kernel (fused_gating_intermediate w) \<noteq> 0 \<and> is_fused_silu w then 1 else 2)
              (lora_r (gating w)) (lora_r (intermediate w)) s = (None, allocated E n w s)"
    and stage: "(if kernel (fused_gating_intermediate w) \<noteq> 0
             then fused_silu_ffn E n (inter_size w) (val lid) (data ffn_in) w (allocated E n w s)
             else unfused_ffn E n (inter_size w) (val lid) (data ffn_in)
                    (data (at_default input_tensors ''lora_mask'' invalid_tensor)) w (allocated E n w s))
            = (None, s2)"
    and down: "w2 E n (inter_size w) (val lid) (data ffn_out)
              (data (at_default input_tensors ''lora_mask'' invalid_tensor)) w s2 = (None, s3)"
    and fin: "s' = (if is_free_buffer_after_forward s3 then freeBuffer E s3 else s3)"
    by auto
  note a = allocateBuffer_ok(4,5) [OF alloc]
  show ?thesis
  proof (cases "kernel (fused_gating_intermediate w) \<noteq> 0")
    case True
    with stage have "fused_silu_ffn E n (inter_size w) (val lid) (data ffn_in) w (allocated E n w s) = (None, s2)"
      by simp
    from fused_silu_ffn_ok [OF this] w2_ok [OF down] fin a True
    show ?thesis by (simp add: Let_def)
  next
    case False
    with stage have "unfused_ffn E n (inter_size w) (val lid) (data ffn_in)
                    (data (at_default input_tensors ''lora_mask'' invalid_tensor)) w (allocated E n w s) = (None, s2)"
      by simp
    from unfused_ffn_ok [OF this] w2_ok [OF down] fin a False
    show ?thesis by (simp add: Let_def)
  qed
qed

text \<open>The whole of a call of \<^verbatim>\<open>forward\<close> that returns.\<close>

lemma freeBuffer_allocated:
  assumes "is_allocate_buffer s"
  shows "freeBuffer E s =
           s\<lparr>trace := trace s @ [Free (gating_buf s), Free (lora_buf s)],
              allocator := free E (free E (allocator s) (gating_buf s)) (lora_buf s),
              gating_buf := 0, lora_buf := 0, is_allocate_buffer := False\<rparr>"
  using assms by (simp add: freeBuffer_def issue_def Let_def)

lemma forward_calls:
  assumes "input_tensors ''ffn_input'' = Some ffn_in" and "shape ffn_in = n # dims"
    and "input_tensors ''layer_id'' = Some lid"
    and "output_tensors ''ffn_output'' = Some ffn_out"
    and "forward E output_tensors input_tensors w s = (None, s')"
  shows "calls_since s s' =
    (let s1 = allocated E n w s;
         m = data (at_default input_tensors ''lora_mask'' invalid_tensor)
     in ReMalloc (gating_buf s)
          (sizeof_T (dtype s) * (n * scast (inter_size w))
             * (if kernel (fused_gating_intermediate w) \<noteq> 0 \<and> is_fused_silu w then 1 else 2))
          (Some False)
        # (if lora_r (gating w) + lora_r (intermediate w) \<noteq> 0
           then [ReMalloc (lora_buf s)
                   (sizeof_T (dtype s) * n * (lora_r (gating w) + lora_r (intermediate w))) None]
           else [])
        @ (if kernel (fused_gating_intermediate w) \<noteq> 0
             then LinearForward (gating_buf s1) (data ffn_in) 0 n (fused_gating_intermediate w)
                    (if is_fused_silu w then kFusedSiluFfn else kGemm) None None
                  # SyncCheck
                  # (if is_fused_silu w then []
                     else [GenericActivation (gating_buf s1)
                             (gating_buf s1 + sizeof_T (dtype s) * scast (inter_size w))
                             (inter_size w * 2) (ucast n) (inter_size w), SyncCheck])
                  @ [CountAndFix (gating_buf s1) (n * input_dims (output_w w))
                       (Concat ''w1_w3_silu'' (val lid)) 3]
             else [LinearForward (gating_buf s1) (data ffn_in) 0 n (gating w) kGemm
                     (Some (lora_buf s1)) (Some m),
                   SyncCheck,
                   CountAndFix (gating_buf s1) (n * output_dims (gating w)) (Concat ''w1'' (val lid)) 3,
                   LinearForward (inter_buf s1) (data ffn_in) 0 n (intermediate w) kGemm
                     (Some (lora_buf s1)) (Some m),
                   SyncCheck,
                   CountAndFix (inter_buf s1) (n * output_dims (intermediate w)) (Concat ''w3'' (val lid)) 3,
                   GenericActivation (gating_buf s1) (inter_buf s1) (inter_size w) (ucast n) (inter_size w),
                   SyncCheck,
                   CountAndFix (gating_buf s1) (n * input_dims (output_w w)) (Concat ''act'' (val lid)) 3])
        @ [LinearForward (data ffn_out) (gating_buf s1)
                 (if kernel (fused_gating_intermediate w) \<noteq> 0 \<and> \<not> is_fused_silu w
                  then inter_size w * 2 else 0)
                 n (output_w w) kGemm (Some (lora_buf s1)) (Some m),
               SyncCheck,
               CountAndFix (data ffn_out) (n * output_dims (output_w w)) (Concat ''w2'' (val lid)) 3]
        @ (if is_free_buffer_after_forward s then [Free (gating_buf s1), Free (lora_buf s1)] else []))"
proof -
  from forward_ok [OF assms(1,2,3,5)]
  have alloc: "allocateBuffer E n (inter_size w)
              (if kernel (fused_gating_intermediate w) \<noteq> 0 \<and> is_fused_silu w then 1 else 2)
              (lora_r (gating w)) (lora_r (intermediate w)) s = (None, allocated E n w s)"
    by auto
  note a = allocateBuffer_ok(1,3) [OF alloc]
  from forward_final [OF assms] a
  show ?thesis
    by (simp add: Let_def calls_since_def freeBuffer_allocated)
qed

lemma forward_handles:
  assumes "input_tensors ''ffn_input'' = Some ffn_in" and "shape ffn_in = n # dims"
    and "input_tensors ''layer_id'' = Some lid"
    and "output_tensors ''ffn_output'' = Some ffn_out"
    and "forward E output_tensors input_tensors w s = (None, s')"
  shows "gating_buf s' = (if is_free_buffer_after_forward s then 0 else gating_buf (allocated E n w s))"
    and "lora_buf s' = (if is_free_buffer_after_forward s then 0 else lora_buf (allocated E n w s))"
    and "inter_buf s' = inter_buf (allocated E n w s)"
    and "is_allocate_buffer s' = (\<not> is_free_buffer_after_forward s)"
    and "is_free_buffer_after_forward s' = is_free_buffer_after_forward s"
    and "dtype s' = dtype s"
proof -
  from forward_ok [OF assms(1,2,3,5)]
  have alloc: "allocateBuffer E n (inter_size w)
              (if kernel (fused_gating_intermediate w) \<noteq> 0 \<and> is_fused_silu w then 1 else 2)
              (lora_r (gating w)) (lora_r (intermediate w)) s = (None, allocated E n w s)"
    by auto
  note a = allocateBuffer_ok(3,4,5) [OF alloc]
  from forward_final [OF assms] a
  show "gating_buf s' = (if is_free_buffer_after_forward s then 0 else gating_buf (allocated E n w s))"
    and "lora_buf s' = (if is_free_buffer_after_forward s then 0 else lora_buf (allocated E n w s))"
    and "inter_buf s' = inter_buf (allocated E n w s)"
    and "is_allocate_buffer s' = (\<not> is_free_buffer_after_forward s)"
    and "is_free_buffer_after_forward s' = is_free_buffer_after_forward s"
    and "dtype s' = dtype s"
    by (simp_all add: Let_def freeBuffer_allocated)
qed

text \<open>Reading \<^verbatim>\<open>size_t\<close> products as natural numbers when they fit.\<close>

lemma unat_scast_nonneg:
  fixes i :: cint
  assumes "0 \<le> sint i"
  shows "unat (scast i :: size_t) = nat (sint i)"
proof -
  have "sint i < 2 ^ 31" using sint_lt [of i] by simp
  then have "sint i < 2 ^ 64" by (rule less_trans) simp
  with assms have t: "take_bit 64 (sint i) = sint i"
    by (simp add: take_bit_int_eq_self)
  have "uint (scast i :: size_t) = take_bit 64 (sint i)"
    by (simp only: scast_eq uint_word_of_int_eq) simp
  with t show ?thesis
    by (simp only: unat_eq_nat_uint)
qed

lemma unat_mult4:
  fixes a b c d :: size_t
  assumes "unat a * (unat b * unat c * unat d) < 2 ^ 64"
  shows "unat (a * (b * c * d)) = unat a * (unat b * unat c * unat d)"
proof -
  have "unat (a * (b * c * d)) = (unat a * (((unat b * unat c) mod 2 ^ 64 * unat d) mod 2 ^ 64)) mod 2 ^ 64"
    by (simp only: unat_word_ariths) simp
  also have "\<dots> = (unat a * (unat b * unat c * unat d)) mod 2 ^ 64"
    by (simp only: mod_mult_right_eq mod_mult_left_eq)
  also have "\<dots> = unat a * (unat b * unat c * unat d)"
    using assms by simp
  finally show ?thesis .
qed

lemma unat_mult_add:
  fixes a b c d :: size_t
  assumes "unat a * (unat b * (unat c + unat d)) < 2 ^ 64"
  shows "unat (a * (b * (c + d))) = unat a * (unat b * (unat c + unat d))"
proof -
  have "unat (a * (b * (c + d))) = (unat a * ((unat b * ((unat c + unat d) mod 2 ^ 64)) mod 2 ^ 64)) mod 2 ^ 64"
    by (simp only: unat_word_ariths) simp
  also have "\<dots> = (unat a * (unat b * (unat c + unat d))) mod 2 ^ 64"
    by (simp only: mod_mult_right_eq mod_mult_left_eq)
  also have "\<dots> = unat a * (unat b * (unat c + unat d))"
    using assms by simp
  finally show ?thesis .
qed

lemma sizeof_T_pos: "0 < unat (sizeof_T ty)"
  by (cases ty) simp_all

section \<open>Runs on concrete inputs\<close>

lemmas run_defs =
  forward_def at_def shape0_def getVal_def at_default_def invalid_tensor_def
  allocateBuffer_def fused_silu_ffn_def unfused_ffn_def w2_def activation_def freeBuffer_def
  sync_check_cuda_error_def count_and_fix_def linear_forward_def issue_def and_then_def
  test_double_def pool_reMalloc_def pool_malloc_def pool_free_def new_layer_def
  test_weights_def dense_def test_inputs_def test_inputs_masked_def test_outputs_def
  test_inputs_no_ffn_input_def Concat_def to_string_def digits10.simps digit_char_def

lemma run_unfused:
  "forward test_double test_outputs test_inputs (test_weights 0 False 0 0) (new_layer Half False) =
     (None,
      \<lparr>gating_buf = 4096, inter_buf = 4224, lora_buf = 0, is_allocate_buffer = True,
       is_free_buffer_after_forward = False, dtype = Half,
       allocator = \<lparr>regions = [(4096, 256)], next_addr = 4384\<rparr>,
       trace =
         [ReMalloc 0 256 (Some False),
          LinearForward 4096 256 0 4 (dense 16 8 16 0) kGemm (Some 0) (Some 0),
          SyncCheck, CountAndFix 4096 64 ''w1_7'' 3,
          LinearForward 4224 256 0 4 (dense 32 8 16 0) kGemm (Some 0) (Some 0),
          SyncCheck, CountAndFix 4224 64 ''w3_7'' 3,
          GenericActivation 4096 4224 16 4 16, SyncCheck, CountAndFix 4096 64 ''act_7'' 3,
          LinearForward 512 4096 0 4 (dense 48 16 8 0) kGemm (Some 0) (Some 0),
          SyncCheck, CountAndFix 512 32 ''w2_7'' 3]\<rparr>)"
  by (simp add: run_defs)

lemma run_unfused_adapters:
  "forward test_double test_outputs test_inputs_masked (test_weights 0 False 4 4) (new_layer Half False) =
     (None,
      \<lparr>gating_buf = 4096, inter_buf = 4224, lora_buf = 4384, is_allocate_buffer = True,
       is_free_buffer_after_forward = False, dtype = Half,
       allocator = \<lparr>regions = [(4384, 64), (4096, 256)], next_addr = 4480\<rparr>,
       trace =
         [ReMalloc 0 256 (Some False), ReMalloc 0 64 None,
          LinearForward 4096 256 0 4 (dense 16 8 16 4) kGemm (Some 4384) (Some 768),
          SyncCheck, CountAndFix 4096 64 ''w1_7'' 3,
          LinearForward 4224 256 0 4 (dense 32 8 16 4) kGemm (Some 4384) (Some 768),
          SyncCheck, CountAndFix 4224 64 ''w3_7'' 3,
          GenericActivation 4096 4224 16 4 16, SyncCheck, CountAndFix 4096 64 ''act_7'' 3,
          LinearForward 512 4096 0 4 (dense 48 16 8 0) kGemm (Some 4384) (Some 768),
          SyncCheck, CountAndFix 512 32 ''w2_7'' 3]\<rparr>)"
  by (simp add: run_defs)

lemma run_fused_unactivated:
  "forward test_double test_outputs test_inputs_masked (test_weights 64 False 4 4) (new_layer Half True) =
     (None,
      \<lparr>gating_buf = 0, inter_buf = 4224, lora_buf = 0, is_allocate_buffer = False,
       is_free_buffer_after_forward = True, dtype = Half,
       allocator = \<lparr>regions = [], next_addr = 4480\<rparr>,
       trace =
         [ReMalloc 0 256 (Some False), ReMalloc 0 64 None,
          LinearForward 4096 256 0 4 (dense 64 8 32 0) kGemm None None,
          SyncCheck, GenericActivation 4096 4128 32 4 16, SyncCheck,
          CountAndFix 4096 64 ''w1_w3_silu_7'' 3,
          LinearForward 512 4096 32 4 (dense 48 16 8 0) kGemm (Some 4384) (Some 768),
          SyncCheck, CountAndFix 512 32 ''w2_7'' 3, Free 4096, Free 4384]\<rparr>)"
  by (simp add: run_defs)

lemma run_fused_silu:
  "forward test_double test_outputs test_inputs (test_weights 64 True 0 0) (new_layer Float False) =
     (None,
      \<lparr>gating_buf = 4096, inter_buf = 4352, lora_buf = 0, is_allocate_buffer = True,
       is_free_buffer_after_forward = False, dtype = Float,
       allocator = \<lparr>regions = [(4096, 256)], next_addr = 4384\<rparr>,
       trace =
         [ReMalloc 0 256 (Some False),
          LinearForward 4096 256 0 4 (dense 64 8 32 0) kFusedSiluFfn None None,
          SyncCheck, CountAndFix 4096 64 ''w1_w3_silu_7'' 3,
          LinearForward 512 4096 0 4 (dense 48 16 8 0) kGemm (Some 0) (Some 0),
          SyncCheck, CountAndFix 512 32 ''w2_7'' 3]\<rparr>)"
  by (simp add: run_defs)



lemma test_inputs_ffn_input:
  "test_inputs ''ffn_input'' = Some \<lparr>shape = [4, 8], data = 256, val = 0\<rparr>"
  "test_inputs_masked ''ffn_input'' = Some \<lparr>shape = [4, 8], data = 256, val = 0\<rparr>"
  by (simp_all add: test_inputs_def test_inputs_masked_def)

lemma test_inputs_layer_id:
  "test_inputs ''layer_id'' = Some \<lparr>shape = [1], data = 0, val = 7\<rparr>"
  "test_inputs_masked ''layer_id'' = Some \<lparr>shape = [1], data = 0, val = 7\<rparr>"
  by (simp_all add: test_inputs_def test_inputs_masked_def)

lemma test_outputs_ffn_output:
  "test_outputs ''ffn_output'' = Some \<lparr>shape = [4, 8], data = 512, val = 0\<rparr>"
  by (simp add: test_outputs_def)

lemma test_shape: "shape \<lparr>shape = [4, 8], data = 256, val = 0\<rparr> = 4 # [8]"
  by simp

lemma new_layer_trace: "trace (new_layer ty free_after) = []"
  by (simp add: new_layer_def)

section \<open>The claims\<close>

text \<open>
  C1. The specification's three states partition the weight configurations
  (\<open>spec_state\<close> is a function of the fused descriptor and the flag). In a call of
  \<^verbatim>\<open>forward\<close> that returns, the activation kernel is launched
  \<^item> not at all when the state is \<open>FUSED_SILU\<close>;
  \<^item> once, in the chunked layout, when the state is \<open>FUSED_UNACTIVATED\<close>: gate at the
    start of the gating buffer, up \<^verbatim>\<open>inter_size\<close> elements further in the same
    buffer, stride \<^verbatim>\<open>inter_size * 2\<close>;
  \<^item> once, in the separate layout, when the state is \<open>UNFUSED\<close>: gate in the gating
    buffer, up in the intermediate buffer, stride \<^verbatim>\<open>inter_size\<close>.
\<close>

theorem activation_mode_by_state:
  assumes "input_tensors ''ffn_input'' = Some ffn_in" and "shape ffn_in = token_num # dims"
    and "input_tensors ''layer_id'' = Some lid"
    and "output_tensors ''ffn_output'' = Some ffn_out"
    and "forward E output_tensors input_tensors weights s = (None, s')"
  shows "filter is_activation (calls_since s s') =
    (case spec_state weights of
       FUSED_SILU \<Rightarrow> []
     | FUSED_UNACTIVATED \<Rightarrow>
         [GenericActivation (gating_buf (allocated E token_num weights s))
            (gating_buf (allocated E token_num weights s) + sizeof_T (dtype s) * scast (inter_size weights))
            (inter_size weights * 2) (ucast token_num) (inter_size weights)]
     | UNFUSED \<Rightarrow>
         [GenericActivation (gating_buf (allocated E token_num weights s))
            (inter_buf (allocated E token_num weights s))
            (inter_size weights) (ucast token_num) (inter_size weights)])"
  using forward_calls [OF assms]
  by (simp add: Let_def spec_state_def)

theorem activation_mode_by_state_witness:
  "fst (forward test_double test_outputs test_inputs_masked (test_weights 64 False 4 4) (new_layer Half True)) = None
   \<and> spec_state (test_weights 64 False 4 4) = FUSED_UNACTIVATED
   \<and> filter is_activation
        (calls_since (new_layer Half True)
           (snd (forward test_double test_outputs test_inputs_masked (test_weights 64 False 4 4) (new_layer Half True))))
       = [GenericActivation 4096 (4096 + 2 * 16) (16 * 2) 4 16]"
proof -
  have st: "spec_state (test_weights 64 False 4 4) = FUSED_UNACTIVATED"
    by (simp add: spec_state_def test_weights_def dense_def)
  have ok: "fst (forward test_double test_outputs test_inputs_masked (test_weights 64 False 4 4) (new_layer Half True)) = None"
    by (simp add: run_fused_unactivated)
  then have run: "forward test_double test_outputs test_inputs_masked (test_weights 64 False 4 4) (new_layer Half True)
               = (None, snd (forward test_double test_outputs test_inputs_masked (test_weights 64 False 4 4) (new_layer Half True)))"
    by (simp add: prod_eq_iff)
  have al: "gating_buf (allocated test_double 4 (test_weights 64 False 4 4) (new_layer Half True)) = 4096"
    by (simp add: allocated_def run_defs)
  from activation_mode_by_state
         [where input_tensors = test_inputs_masked and output_tensors = test_outputs,
          OF test_inputs_ffn_input(2) test_shape test_inputs_layer_id(2) test_outputs_ffn_output run]
  have "filter is_activation
        (calls_since (new_layer Half True)
           (snd (forward test_double test_outputs test_inputs_masked (test_weights 64 False 4 4) (new_layer Half True))))
       = [GenericActivation 4096 (4096 + 2 * 16) (16 * 2) 4 16]"
    by (simp add: st al) (simp add: new_layer_def test_weights_def)
  with st ok show ?thesis
    by simp
qed

text \<open>
  C2. In a call of \<^verbatim>\<open>forward\<close> that returns, the last projection issued is the
  down-projection: it writes the data of \<^verbatim>\<open>"ffn_output"\<close>, reads the gating
  buffer, and its read stride is \<^verbatim>\<open>2 * inter_size\<close> (in \<^verbatim>\<open>int\<close>
  arithmetic) when the state is \<open>FUSED_UNACTIVATED\<close> and \<open>0\<close> in the two other states.
\<close>

theorem down_projection_stride:
  assumes "input_tensors ''ffn_input'' = Some ffn_in" and "shape ffn_in = token_num # dims"
    and "input_tensors ''layer_id'' = Some lid"
    and "output_tensors ''ffn_output'' = Some ffn_out"
    and "forward E output_tensors input_tensors weights s = (None, s')"
  shows "last (filter is_projection (calls_since s s')) =
    LinearForward (data ffn_out) (gating_buf (allocated E token_num weights s))
      (if spec_state weights = FUSED_UNACTIVATED then 2 * inter_size weights else 0)
      token_num (output_w weights) kGemm
      (Some (lora_buf (allocated E token_num weights s)))
      (Some (data (at_default input_tensors ''lora_mask'' invalid_tensor)))"
  using forward_calls [OF assms]
  by (simp add: Let_def spec_state_def mult.commute)

theorem down_projection_stride_witness:
  "fst (forward test_double test_outputs test_inputs_masked (test_weights 64 False 4 4) (new_layer Half True)) = None
   \<and> spec_state (test_weights 64 False 4 4) = FUSED_UNACTIVATED
   \<and> last (filter is_projection (calls_since (new_layer Half True) (snd (forward test_double test_outputs test_inputs_masked (test_weights 64 False 4 4) (new_layer Half True)))))
       = LinearForward 512 4096 (2 * 16) 4 (dense 48 16 8 0) kGemm (Some 4384) (Some 768)"
proof -
  have st: "spec_state (test_weights 64 False 4 4) = FUSED_UNACTIVATED"
    by (simp add: spec_state_def test_weights_def dense_def)
  have ok: "fst (forward test_double test_outputs test_inputs_masked (test_weights 64 False 4 4) (new_layer Half True)) = None"
    by (simp add: run_fused_unactivated)
  then have run: "forward test_double test_outputs test_inputs_masked (test_weights 64 False 4 4) (new_layer Half True)
               = (None, snd (forward test_double test_outputs test_inputs_masked (test_weights 64 False 4 4) (new_layer Half True)))"
    by (simp add: prod_eq_iff)
  have al: "gating_buf (allocated test_double 4 (test_weights 64 False 4 4) (new_layer Half True)) = 4096"
    "lora_buf (allocated test_double 4 (test_weights 64 False 4 4) (new_layer Half True)) = 4384"
    by (simp_all add: allocated_def run_defs)
  from down_projection_stride
         [where input_tensors = test_inputs_masked and output_tensors = test_outputs,
          OF test_inputs_ffn_input(2) test_shape test_inputs_layer_id(2) test_outputs_ffn_output run]
  have "last (filter is_projection (calls_since (new_layer Half True) (snd (forward test_double test_outputs test_inputs_masked (test_weights 64 False 4 4) (new_layer Half True)))))
       = LinearForward 512 4096 (2 * 16) 4 (dense 48 16 8 0) kGemm (Some 4384) (Some 768)"
    by (simp add: st al) (simp add: test_weights_def test_inputs_masked_def at_default_def)
  with st ok show ?thesis
    by simp
qed

text \<open>
  C3, as stated: the down-projection carries no adapter, it is issued without the adapter
  workspace and without the per-token mask. The source passes both
  (\<^verbatim>\<open>lora_buf_\<close> and \<^verbatim>\<open>lora_mask\<close> are the last two arguments of the call
  at lines 148 to 154). With gate and up adapters of rank 4 and a mask supplied, the
  down-projection receives the workspace at 4384 and the mask at 768.
\<close>

theorem down_projection_no_adapter_counterexample:
  "fst (forward test_double test_outputs test_inputs_masked (test_weights 0 False 4 4) (new_layer Half False)) = None
   \<and> \<not> carries_no_adapter (last (filter is_projection (calls_since (new_layer Half False) (snd (forward test_double test_outputs test_inputs_masked (test_weights 0 False 4 4) (new_layer Half False))))))"
  by (simp add: run_unfused_adapters calls_since_def new_layer_trace carries_no_adapter_def)

text \<open>
  C3, amended: in a call of \<^verbatim>\<open>forward\<close> that returns, the down-projection is
  issued with the layer's adapter workspace handle and with the per-token mask pointer
  (the data of \<^verbatim>\<open>"lora_mask"\<close>, or \<^verbatim>\<open>nullptr\<close> when that input is absent), in
  every state.
\<close>

theorem down_projection_passes_adapter_arguments:
  assumes "input_tensors ''ffn_input'' = Some ffn_in" and "shape ffn_in = token_num # dims"
    and "input_tensors ''layer_id'' = Some lid"
    and "output_tensors ''ffn_output'' = Some ffn_out"
    and "forward E output_tensors input_tensors weights s = (None, s')"
  shows "adapter_args (last (filter is_projection (calls_since s s'))) =
           (Some (lora_buf (allocated E token_num weights s)),
            Some (data (at_default input_tensors ''lora_mask'' invalid_tensor)))"
  using forward_calls [OF assms]
  by (simp add: Let_def)

theorem down_projection_passes_adapter_arguments_witness:
  "fst (forward test_double test_outputs test_inputs_masked (test_weights 0 False 4 4) (new_layer Half False)) = None
   \<and> adapter_args (last (filter is_projection (calls_since (new_layer Half False) (snd (forward test_double test_outputs test_inputs_masked (test_weights 0 False 4 4) (new_layer Half False))))))
       = (Some 4384, Some 768)"
proof -
  have ok: "fst (forward test_double test_outputs test_inputs_masked (test_weights 0 False 4 4) (new_layer Half False)) = None"
    by (simp add: run_unfused_adapters)
  then have run: "forward test_double test_outputs test_inputs_masked (test_weights 0 False 4 4) (new_layer Half False)
               = (None, snd (forward test_double test_outputs test_inputs_masked (test_weights 0 False 4 4) (new_layer Half False)))"
    by (simp add: prod_eq_iff)
  have al: "lora_buf (allocated test_double 4 (test_weights 0 False 4 4) (new_layer Half False)) = 4384"
    by (simp add: allocated_def run_defs)
  from down_projection_passes_adapter_arguments
         [where input_tensors = test_inputs_masked and output_tensors = test_outputs,
          OF test_inputs_ffn_input(2) test_shape test_inputs_layer_id(2) test_outputs_ffn_output run]
  have "adapter_args (last (filter is_projection (calls_since (new_layer Half False) (snd (forward test_double test_outputs test_inputs_masked (test_weights 0 False 4 4) (new_layer Half False))))))
       = (Some 4384, Some 768)"
    by (simp add: al) (simp add: test_inputs_masked_def at_default_def)
  with ok show ?thesis
    by simp
qed

text \<open>
  C4. In a call of \<^verbatim>\<open>forward\<close> that returns, the first allocator call is the
  request for the gating region, of \<^verbatim>\<open>sizeof(T)\<close> bytes times
  \<^verbatim>\<open>token_num * inter_size * factor\<close> elements, where the factor is 1 when the
  state is \<open>FUSED_SILU\<close> and 2 in the two other states. The product is the one the source
  computes in \<^verbatim>\<open>size_t\<close>; for \<^verbatim>\<open>token_num > 0\<close> and
  \<^verbatim>\<open>inter_size > 0\<close> it is the product of the natural numbers whenever the byte
  count fits in 64 bits.
\<close>

theorem gating_region_size:
  assumes "input_tensors ''ffn_input'' = Some ffn_in" and "shape ffn_in = token_num # dims"
    and "input_tensors ''layer_id'' = Some lid"
    and "output_tensors ''ffn_output'' = Some ffn_out"
    and "forward E output_tensors input_tensors weights s = (None, s')"
  shows "hd (calls_since s s') =
           ReMalloc (gating_buf s)
             (sizeof_T (dtype s) *
                (token_num * scast (inter_size weights) * (if spec_state weights = FUSED_SILU then 1 else 2)))
             (Some False)
       \<and> (0 < unat token_num \<and> 0 < sint (inter_size weights)
          \<and> unat (sizeof_T (dtype s)) *
              (unat token_num * nat (sint (inter_size weights)) * (if spec_state weights = FUSED_SILU then 1 else 2))
              < 2 ^ 64
          \<longrightarrow> unat (sizeof_T (dtype s) *
                (token_num * scast (inter_size weights) * (if spec_state weights = FUSED_SILU then 1 else 2)))
              = unat (sizeof_T (dtype s)) *
                  (unat token_num * nat (sint (inter_size weights)) * (if spec_state weights = FUSED_SILU then 1 else 2)))"
proof (intro conjI impI)
  show "hd (calls_since s s') =
           ReMalloc (gating_buf s)
             (sizeof_T (dtype s) *
                (token_num * scast (inter_size weights) * (if spec_state weights = FUSED_SILU then 1 else 2)))
             (Some False)"
    using forward_calls [OF assms]
    by (simp add: Let_def spec_state_def mult.assoc)
next
  let ?f = "(if spec_state weights = FUSED_SILU then 1 else 2) :: size_t"
  let ?fn = "(if spec_state weights = FUSED_SILU then 1 else 2) :: nat"
  assume h: "0 < unat token_num \<and> 0 < sint (inter_size weights)
          \<and> unat (sizeof_T (dtype s)) * (unat token_num * nat (sint (inter_size weights)) * ?fn) < 2 ^ 64"
  have f: "unat ?f = ?fn" by simp
  have i: "unat (scast (inter_size weights) :: size_t) = nat (sint (inter_size weights))"
    using h by (simp add: unat_scast_nonneg)
  from h have "unat (sizeof_T (dtype s)) * (unat token_num * unat (scast (inter_size weights) :: size_t) * unat ?f) < 2 ^ 64"
    by (simp only: i f)
  from unat_mult4 [OF this]
  show "unat (sizeof_T (dtype s) * (token_num * scast (inter_size weights) * ?f))
          = unat (sizeof_T (dtype s)) * (unat token_num * nat (sint (inter_size weights)) * ?fn)"
    by (simp only: i f)
qed

theorem gating_region_size_witness:
  "fst (forward test_double test_outputs test_inputs (test_weights 64 True 0 0) (new_layer Float False)) = None
   \<and> spec_state (test_weights 64 True 0 0) = FUSED_SILU
   \<and> hd (calls_since (new_layer Float False)
           (snd (forward test_double test_outputs test_inputs (test_weights 64 True 0 0) (new_layer Float False))))
       = ReMalloc 0 256 (Some False)
   \<and> 0 < unat (4 :: size_t) \<and> 0 < sint (16 :: cint)
   \<and> unat (4 :: size_t) * (unat (4 :: size_t) * nat (sint (16 :: cint)) * 1) < (2 :: nat) ^ 64
   \<and> unat (256 :: size_t) = unat (4 :: size_t) * (unat (4 :: size_t) * nat (sint (16 :: cint)) * 1)"
proof -
  have st: "spec_state (test_weights 64 True 0 0) = FUSED_SILU"
    by (simp add: spec_state_def test_weights_def dense_def)
  have ok: "fst (forward test_double test_outputs test_inputs (test_weights 64 True 0 0) (new_layer Float False)) = None"
    by (simp add: run_fused_silu)
  then have run: "forward test_double test_outputs test_inputs (test_weights 64 True 0 0) (new_layer Float False)
               = (None, snd (forward test_double test_outputs test_inputs (test_weights 64 True 0 0) (new_layer Float False)))"
    by (simp add: prod_eq_iff)
  from gating_region_size
         [where input_tensors = test_inputs and output_tensors = test_outputs,
          OF test_inputs_ffn_input(1) test_shape test_inputs_layer_id(1) test_outputs_ffn_output run]
  have "hd (calls_since (new_layer Float False)
           (snd (forward test_double test_outputs test_inputs (test_weights 64 True 0 0) (new_layer Float False))))
       = ReMalloc 0 256 (Some False)"
    by (simp add: st) (simp add: new_layer_def test_weights_def)
  with st ok show ?thesis
    by simp
qed

text \<open>
  C5, as stated: the anomaly handler is called after each projection and after the
  activation; in particular, in the state \<open>FUSED_UNACTIVATED\<close>, once after the fused
  projection and again after the activation. In that state the source calls the
  activation right after the fused projection and the handler only once, after the
  activation (lines 103 to 110): the run below has two handler calls, not three, and its
  fused projection is followed by the activation.
\<close>

theorem diagnostics_after_each_stage_counterexample:
  "spec_state (test_weights 64 False 4 4) = FUSED_UNACTIVATED
   \<and> fst (forward test_double test_outputs test_inputs_masked (test_weights 64 False 4 4) (new_layer Half True)) = None
   \<and> \<not> diagnosed_after_each_stage (calls_since (new_layer Half True) (snd (forward test_double test_outputs test_inputs_masked (test_weights 64 False 4 4) (new_layer Half True))))
   \<and> filter is_diagnostic (calls_since (new_layer Half True) (snd (forward test_double test_outputs test_inputs_masked (test_weights 64 False 4 4) (new_layer Half True))))
       = [CountAndFix 4096 64 ''w1_w3_silu_7'' 3, CountAndFix 512 32 ''w2_7'' 3]"
proof -
  have "spec_state (test_weights 64 False 4 4) = FUSED_UNACTIVATED"
    by (simp add: spec_state_def test_weights_def dense_def)
  then show ?thesis
    by (simp add: run_fused_unactivated calls_since_def new_layer_trace)
qed

text \<open>
  C5, amended: in a call of \<^verbatim>\<open>forward\<close> that returns, the projections, the
  activation and the calls of the anomaly handler come in a fixed order that depends on
  the state only. In the state \<open>UNFUSED\<close> the handler is called after each of the three
  projections and after the activation (tags \<^verbatim>\<open>w1\<close>, \<^verbatim>\<open>w3\<close>, \<^verbatim>\<open>act\<close>,
  \<^verbatim>\<open>w2\<close>). In the two fused states it is called once for the gated result, tagged
  \<^verbatim>\<open>w1_w3_silu\<close> (in \<open>FUSED_UNACTIVATED\<close> after the activation, with no call between
  the fused projection and the activation), and once after the down-projection. Every
  call passes a region, an element count, the tag \<^verbatim>\<open><name>_<layer_id>\<close> and the
  level 3. The handler returns nothing to the layer, so the steps that follow are the
  same whatever it does.
\<close>

theorem diagnostics_by_state:
  assumes "input_tensors ''ffn_input'' = Some ffn_in" and "shape ffn_in = token_num # dims"
    and "input_tensors ''layer_id'' = Some lid"
    and "output_tensors ''ffn_output'' = Some ffn_out"
    and "forward E output_tensors input_tensors weights s = (None, s')"
  shows "filter is_pipeline_step (calls_since s s') =
    (let s1 = allocated E token_num weights s;
         m = data (at_default input_tensors ''lora_mask'' invalid_tensor);
         down = LinearForward (data ffn_out) (gating_buf s1)
                  (if spec_state weights = FUSED_UNACTIVATED then 2 * inter_size weights else 0)
                  token_num (output_w weights) kGemm (Some (lora_buf s1)) (Some m);
         gated = token_num * input_dims (output_w weights)
     in case spec_state weights of
          FUSED_SILU \<Rightarrow>
            [LinearForward (gating_buf s1) (data ffn_in) 0 token_num
               (fused_gating_intermediate weights) kFusedSiluFfn None None,
             CountAndFix (gating_buf s1) gated (Concat ''w1_w3_silu'' (val lid)) 3,
             down,
             CountAndFix (data ffn_out) (token_num * output_dims (output_w weights)) (Concat ''w2'' (val lid)) 3]
        | FUSED_UNACTIVATED \<Rightarrow>
            [LinearForward (gating_buf s1) (data ffn_in) 0 token_num
               (fused_gating_intermediate weights) kGemm None None,
             GenericActivation (gating_buf s1)
               (gating_buf s1 + sizeof_T (dtype s) * scast (inter_size weights))
               (inter_size weights * 2) (ucast token_num) (inter_size weights),
             CountAndFix (gating_buf s1) gated (Concat ''w1_w3_silu'' (val lid)) 3,
             down,
             CountAndFix (data ffn_out) (token_num * output_dims (output_w weights)) (Concat ''w2'' (val lid)) 3]
        | UNFUSED \<Rightarrow>
            [LinearForward (gating_buf s1) (data ffn_in) 0 token_num (gating weights) kGemm
               (Some (lora_buf s1)) (Some m),
             CountAndFix (gating_buf s1) (token_num * output_dims (gating weights)) (Concat ''w1'' (val lid)) 3,
             LinearForward (inter_buf s1) (data ffn_in) 0 token_num (intermediate weights) kGemm
               (Some (lora_buf s1)) (Some m),
             CountAndFix (inter_buf s1) (token_num * output_dims (intermediate weights)) (Concat ''w3'' (val lid)) 3,
             GenericActivation (gating_buf s1) (inter_buf s1) (inter_size weights) (ucast token_num)
               (inter_size weights),
             CountAndFix (gating_buf s1) gated (Concat ''act'' (val lid)) 3,
             down,
             CountAndFix (data ffn_out) (token_num * output_dims (output_w weights)) (Concat ''w2'' (val lid)) 3])"
  using forward_calls [OF assms]
  by (simp add: Let_def spec_state_def mult.commute)

theorem diagnostics_by_state_witness:
  "fst (forward test_double test_outputs test_inputs (test_weights 0 False 0 0) (new_layer Half False)) = None
   \<and> spec_state (test_weights 0 False 0 0) = UNFUSED
   \<and> filter is_pipeline_step (calls_since (new_layer Half False) (snd (forward test_double test_outputs test_inputs (test_weights 0 False 0 0) (new_layer Half False))))
       = [LinearForward 4096 256 0 4 (dense 16 8 16 0) kGemm (Some 0) (Some 0),
          CountAndFix 4096 64 ''w1_7'' 3,
          LinearForward 4224 256 0 4 (dense 32 8 16 0) kGemm (Some 0) (Some 0),
          CountAndFix 4224 64 ''w3_7'' 3,
          GenericActivation 4096 4224 16 4 16,
          CountAndFix 4096 64 ''act_7'' 3,
          LinearForward 512 4096 0 4 (dense 48 16 8 0) kGemm (Some 0) (Some 0),
          CountAndFix 512 32 ''w2_7'' 3]"
proof -
  have st: "spec_state (test_weights 0 False 0 0) = UNFUSED"
    by (simp add: spec_state_def test_weights_def dense_def)
  have ok: "fst (forward test_double test_outputs test_inputs (test_weights 0 False 0 0) (new_layer Half False)) = None"
    by (simp add: run_unfused)
  then have run: "forward test_double test_outputs test_inputs (test_weights 0 False 0 0) (new_layer Half False)
               = (None, snd (forward test_double test_outputs test_inputs (test_weights 0 False 0 0) (new_layer Half False)))"
    by (simp add: prod_eq_iff)
  have al: "gating_buf (allocated test_double 4 (test_weights 0 False 0 0) (new_layer Half False)) = 4096"
    "inter_buf (allocated test_double 4 (test_weights 0 False 0 0) (new_layer Half False)) = 4224"
    "lora_buf (allocated test_double 4 (test_weights 0 False 0 0) (new_layer Half False)) = 0"
    by (simp_all add: allocated_def run_defs)
  from diagnostics_by_state
         [where input_tensors = test_inputs and output_tensors = test_outputs,
          OF test_inputs_ffn_input(1) test_shape test_inputs_layer_id(1) test_outputs_ffn_output run]
  have "filter is_pipeline_step (calls_since (new_layer Half False) (snd (forward test_double test_outputs test_inputs (test_weights 0 False 0 0) (new_layer Half False))))
       = [LinearForward 4096 256 0 4 (dense 16 8 16 0) kGemm (Some 0) (Some 0),
          CountAndFix 4096 64 ''w1_7'' 3,
          LinearForward 4224 256 0 4 (dense 32 8 16 0) kGemm (Some 0) (Some 0),
          CountAndFix 4224 64 ''w3_7'' 3,
          GenericActivation 4096 4224 16 4 16,
          CountAndFix 4096 64 ''act_7'' 3,
          LinearForward 512 4096 0 4 (dense 48 16 8 0) kGemm (Some 0) (Some 0),
          CountAndFix 512 32 ''w2_7'' 3]"
    by (simp add: st al Let_def)
       (simp add: test_weights_def test_inputs_def at_default_def invalid_tensor_def dense_def
          Concat_def to_string_def digits10.simps digit_char_def)
  with st ok show ?thesis
    by simp
qed

text \<open>
  C6. A call of \<^verbatim>\<open>forward\<close> whose named inputs lack \<^verbatim>\<open>"ffn_input"\<close> fails
  with the error of the missing key and leaves the layer as it found it: no allocation
  has been requested, and no projection, activation or any other collaborator call has
  been issued.
\<close>

theorem missing_ffn_input_fails_first:
  assumes "input_tensors ''ffn_input'' = None"
  shows "forward E output_tensors input_tensors weights s = (Some (MissingKey ''ffn_input''), s)
       \<and> calls_since s (snd (forward E output_tensors input_tensors weights s)) = []"
  using assms by (simp add: forward_def at_def calls_since_def)

theorem missing_ffn_input_fails_first_witness:
  "test_inputs_no_ffn_input ''ffn_input'' = None
   \<and> forward test_double test_outputs test_inputs_no_ffn_input (test_weights 0 False 4 4) (new_layer Half False)
       = (Some (MissingKey ''ffn_input''), new_layer Half False)
   \<and> calls_since (new_layer Half False)
       (snd (forward test_double test_outputs test_inputs_no_ffn_input (test_weights 0 False 4 4)
               (new_layer Half False))) = []"
proof -
  have h: "test_inputs_no_ffn_input ''ffn_input'' = None"
    by (simp add: test_inputs_no_ffn_input_def)
  from missing_ffn_input_fails_first
         [where input_tensors = test_inputs_no_ffn_input and E = test_double
            and output_tensors = test_outputs and weights = "test_weights 0 False 4 4"
            and s = "new_layer Half False", OF h] h
  show ?thesis by blast
qed

text \<open>
  C7, as stated: after every call of \<^verbatim>\<open>forward\<close> on a configuration with gate
  rank 0 and up rank 0 the adapter workspace handle is empty. The weights are an argument
  of each call and, with the free-after-forward policy disabled, the handle is kept from
  call to call: after a call with ranks 4 and 4, a call with ranks 0 and 0 on the same
  layer returns, requests no workspace, and leaves the handle at 4384, the workspace of
  the earlier call.
\<close>

theorem workspace_handle_empty_counterexample:
  "lora_r (gating (test_weights 0 False 0 0)) = 0
   \<and> lora_r (intermediate (test_weights 0 False 0 0)) = 0
   \<and> fst (forward test_double test_outputs test_inputs (test_weights 0 False 0 0) (snd (forward test_double test_outputs test_inputs_masked (test_weights 0 False 4 4) (new_layer Half False)))) = None
   \<and> filter is_allocation (calls_since (snd (forward test_double test_outputs test_inputs_masked (test_weights 0 False 4 4) (new_layer Half False))) (snd (forward test_double test_outputs test_inputs (test_weights 0 False 0 0) (snd (forward test_double test_outputs test_inputs_masked (test_weights 0 False 4 4) (new_layer Half False)))))) = [ReMalloc 4096 256 (Some False)]
   \<and> lora_buf (snd (forward test_double test_outputs test_inputs (test_weights 0 False 0 0) (snd (forward test_double test_outputs test_inputs_masked (test_weights 0 False 4 4) (new_layer Half False))))) = 4384
   \<and> lora_buf (snd (forward test_double test_outputs test_inputs (test_weights 0 False 0 0) (snd (forward test_double test_outputs test_inputs_masked (test_weights 0 False 4 4) (new_layer Half False))))) \<noteq> 0"
proof -
  have "lora_r (gating (test_weights 0 False 0 0)) = 0 \<and> lora_r (intermediate (test_weights 0 False 0 0)) = 0"
    by (simp add: test_weights_def dense_def)
  moreover have "fst (forward test_double test_outputs test_inputs (test_weights 0 False 0 0) (snd (forward test_double test_outputs test_inputs_masked (test_weights 0 False 4 4) (new_layer Half False)))) = None
   \<and> filter is_allocation (calls_since (snd (forward test_double test_outputs test_inputs_masked (test_weights 0 False 4 4) (new_layer Half False))) (snd (forward test_double test_outputs test_inputs (test_weights 0 False 0 0) (snd (forward test_double test_outputs test_inputs_masked (test_weights 0 False 4 4) (new_layer Half False)))))) = [ReMalloc 4096 256 (Some False)]
   \<and> lora_buf (snd (forward test_double test_outputs test_inputs (test_weights 0 False 0 0) (snd (forward test_double test_outputs test_inputs_masked (test_weights 0 False 4 4) (new_layer Half False))))) = 4384
   \<and> lora_buf (snd (forward test_double test_outputs test_inputs (test_weights 0 False 0 0) (snd (forward test_double test_outputs test_inputs_masked (test_weights 0 False 4 4) (new_layer Half False))))) \<noteq> 0"
    by (simp add: run_unfused_adapters) (simp add: run_defs calls_since_def)
  ultimately show ?thesis
    by blast
qed

text \<open>
  C7, amended: in a call of \<^verbatim>\<open>forward\<close> that returns, the allocator requests are
  the one for the gating region (the first call) and, exactly when
  \<^verbatim>\<open>gate_rank + up_rank\<close> is not zero, one for the adapter workspace, of
  \<^verbatim>\<open>sizeof(T) * token_num * (gate_rank + up_rank)\<close> bytes, made with the handle
  the layer held and the allocator state the gating request left; the handle then holds
  the pointer the allocator returned, as the gating handle does for the gating request. When the sum is zero (in particular with both ranks
  zero) there is no request for the workspace and the handle is left as it was before the
  call, so that a handle that was empty before the call is empty after it. In both cases
  the free-after-forward policy empties the handle at the end of the call. Sums and
  products are those of \<^verbatim>\<open>size_t\<close>; they are the sums and products of natural
  numbers whenever the byte count fits in 64 bits.
\<close>

theorem adapter_workspace_allocation:
  assumes "input_tensors ''ffn_input'' = Some ffn_in" and "shape ffn_in = token_num # dims"
    and "input_tensors ''layer_id'' = Some lid"
    and "output_tensors ''ffn_output'' = Some ffn_out"
    and "forward E output_tensors input_tensors weights s = (None, s')"
  shows "filter is_allocation (calls_since s s') =
           hd (calls_since s s')
           # (if 0 < lora_r (gating weights) + lora_r (intermediate weights)
              then [ReMalloc (lora_buf s)
                      (sizeof_T (dtype s) * (token_num * (lora_r (gating weights) + lora_r (intermediate weights))))
                      None]
              else [])
       \<and> (0 < lora_r (gating weights) + lora_r (intermediate weights)
          \<longrightarrow> (\<exists>a a'.
                  reMalloc E (allocator s) (gating_buf s)
                    (sizeof_T (dtype s) * (token_num * scast (inter_size weights))
                       * (if spec_state weights = FUSED_SILU then 1 else 2)) (Some False)
                    = Some (gating_buf (allocated E token_num weights s), a)
                \<and> reMalloc E a (lora_buf s)
                    (sizeof_T (dtype s) * (token_num * (lora_r (gating weights) + lora_r (intermediate weights))))
                    None
                    = Some (lora_buf (allocated E token_num weights s), a'))
              \<and> lora_buf s' = (if is_free_buffer_after_forward s then 0
                               else lora_buf (allocated E token_num weights s)))
       \<and> (lora_r (gating weights) + lora_r (intermediate weights) = 0
          \<longrightarrow> filter is_allocation (calls_since s s') = [hd (calls_since s s')]
              \<and> lora_buf (allocated E token_num weights s) = lora_buf s
              \<and> lora_buf s' = (if is_free_buffer_after_forward s then 0 else lora_buf s)
              \<and> (lora_buf s = 0 \<longrightarrow> lora_buf s' = 0))
       \<and> (0 < unat token_num
          \<and> unat (sizeof_T (dtype s)) *
               (unat token_num * (unat (lora_r (gating weights)) + unat (lora_r (intermediate weights)))) < 2 ^ 64
          \<longrightarrow> (0 < lora_r (gating weights) + lora_r (intermediate weights))
                = (0 < unat (lora_r (gating weights)) + unat (lora_r (intermediate weights)))
              \<and> unat (sizeof_T (dtype s) * (token_num * (lora_r (gating weights) + lora_r (intermediate weights))))
                = unat (sizeof_T (dtype s)) *
                    (unat token_num * (unat (lora_r (gating weights)) + unat (lora_r (intermediate weights)))))"
proof (intro conjI impI)
  note alloc = forward_allocated [OF assms(1,2,3,5)]
  note final = forward_handles(2) [OF assms]
  show calls: "filter is_allocation (calls_since s s') =
           hd (calls_since s s')
           # (if 0 < lora_r (gating weights) + lora_r (intermediate weights)
              then [ReMalloc (lora_buf s)
                      (sizeof_T (dtype s) * (token_num * (lora_r (gating weights) + lora_r (intermediate weights))))
                      None]
              else [])"
    using forward_calls [OF assms]
    by (simp add: Let_def word_gt_0 mult.assoc)
  {
    assume "0 < lora_r (gating weights) + lora_r (intermediate weights)"
    then have nz: "lora_r (gating weights) + lora_r (intermediate weights) \<noteq> 0"
      by (simp add: word_gt_0)
    have fac: "(if spec_state weights = FUSED_SILU then 1 else 2 :: size_t)
               = (if kernel (fused_gating_intermediate weights) \<noteq> 0 \<and> is_fused_silu weights then 1 else 2)"
      by (simp add: spec_state_def)
    from allocateBuffer_workspace [OF alloc nz]
    show "\<exists>a a'.
                  reMalloc E (allocator s) (gating_buf s)
                    (sizeof_T (dtype s) * (token_num * scast (inter_size weights))
                       * (if spec_state weights = FUSED_SILU then 1 else 2)) (Some False)
                    = Some (gating_buf (allocated E token_num weights s), a)
                \<and> reMalloc E a (lora_buf s)
                    (sizeof_T (dtype s) * (token_num * (lora_r (gating weights) + lora_r (intermediate weights))))
                    None
                    = Some (lora_buf (allocated E token_num weights s), a')"
      by (simp only: fac mult.assoc)
    from final
    show "lora_buf s' = (if is_free_buffer_after_forward s then 0
                               else lora_buf (allocated E token_num weights s))" .
  }
  {
    assume z: "lora_r (gating weights) + lora_r (intermediate weights) = 0"
    from calls z show "filter is_allocation (calls_since s s') = [hd (calls_since s s')]"
      by simp
    from allocateBuffer_ok(6) [OF alloc z]
    show same: "lora_buf (allocated E token_num weights s) = lora_buf s" .
    with final
    show keep: "lora_buf s' = (if is_free_buffer_after_forward s then 0 else lora_buf s)"
      by simp
    assume "lora_buf s = 0"
    with keep show "lora_buf s' = 0"
      by simp
  }
  {
    let ?e = "unat (sizeof_T (dtype s))"
    let ?r = "unat (lora_r (gating weights)) + unat (lora_r (intermediate weights))"
    assume h: "0 < unat token_num \<and> ?e * (unat token_num * ?r) < 2 ^ 64"
    from h have "?r \<le> unat token_num * ?r"
      by (cases "unat token_num") simp_all
    also have "\<dots> \<le> ?e * (unat token_num * ?r)"
      using sizeof_T_pos [of "dtype s"] by (cases ?e) simp_all
    finally have "?r \<le> ?e * (unat token_num * ?r)" .
    moreover from h have "?e * (unat token_num * ?r) < 2 ^ 64" ..
    ultimately have "?r < 2 ^ 64"
      by (rule le_less_trans)
    then have "unat (lora_r (gating weights) + lora_r (intermediate weights)) = ?r"
      using unat_add_lem [of "lora_r (gating weights)" "lora_r (intermediate weights)"] by simp
    then show "(0 < lora_r (gating weights) + lora_r (intermediate weights)) = (0 < ?r)"
      by (simp only: word_less_nat_alt) simp
    from h show "unat (sizeof_T (dtype s) * (token_num * (lora_r (gating weights) + lora_r (intermediate weights))))
                = ?e * (unat token_num * ?r)"
      by (intro unat_mult_add) simp
  }
qed

theorem adapter_workspace_allocation_witness:
  "fst (forward test_double test_outputs test_inputs (test_weights 0 False 0 0) (new_layer Half False)) = None
   \<and> lora_r (gating (test_weights 0 False 0 0)) + lora_r (intermediate (test_weights 0 False 0 0)) = 0
   \<and> lora_buf (new_layer Half False) = 0
   \<and> filter is_allocation (calls_since (new_layer Half False) (snd (forward test_double test_outputs test_inputs (test_weights 0 False 0 0) (new_layer Half False)))) = [ReMalloc 0 256 (Some False)]
   \<and> lora_buf (snd (forward test_double test_outputs test_inputs (test_weights 0 False 0 0) (new_layer Half False))) = 0
   \<and> fst (forward test_double test_outputs test_inputs_masked (test_weights 0 False 4 4) (new_layer Half False)) = None
   \<and> (0 :: size_t) < lora_r (gating (test_weights 0 False 4 4)) + lora_r (intermediate (test_weights 0 False 4 4))
   \<and> 0 < unat (4 :: size_t) \<and> unat (2 :: size_t) * (unat (4 :: size_t) * (unat (4 :: size_t) + unat (4 :: size_t))) < (2 :: nat) ^ 64
   \<and> 0 < unat (4 :: size_t) + unat (4 :: size_t)
   \<and> filter is_allocation (calls_since (new_layer Half False) (snd (forward test_double test_outputs test_inputs_masked (test_weights 0 False 4 4) (new_layer Half False))))
       = [ReMalloc 0 256 (Some False), ReMalloc 0 (2 * (4 * (4 + 4))) None]
   \<and> lora_buf (allocated test_double 4 (test_weights 0 False 4 4) (new_layer Half False)) = 4384
   \<and> lora_buf (snd (forward test_double test_outputs test_inputs_masked (test_weights 0 False 4 4) (new_layer Half False))) = 4384"
proof -
  have okA: "fst (forward test_double test_outputs test_inputs (test_weights 0 False 0 0) (new_layer Half False)) = None"
    by (simp add: run_unfused)
  then have runA: "forward test_double test_outputs test_inputs (test_weights 0 False 0 0) (new_layer Half False)
               = (None, snd (forward test_double test_outputs test_inputs (test_weights 0 False 0 0) (new_layer Half False)))"
    by (simp add: prod_eq_iff)
  have okB: "fst (forward test_double test_outputs test_inputs_masked (test_weights 0 False 4 4) (new_layer Half False)) = None"
    by (simp add: run_unfused_adapters)
  then have runB: "forward test_double test_outputs test_inputs_masked (test_weights 0 False 4 4) (new_layer Half False)
               = (None, snd (forward test_double test_outputs test_inputs_masked (test_weights 0 False 4 4) (new_layer Half False)))"
    by (simp add: prod_eq_iff)
  have hdA: "hd (calls_since (new_layer Half False) (snd (forward test_double test_outputs test_inputs (test_weights 0 False 0 0) (new_layer Half False)))) = ReMalloc 0 256 (Some False)"
    by (simp add: run_unfused calls_since_def new_layer_trace)
  have hdB: "hd (calls_since (new_layer Half False) (snd (forward test_double test_outputs test_inputs_masked (test_weights 0 False 4 4) (new_layer Half False)))) = ReMalloc 0 256 (Some False)"
    by (simp add: run_unfused_adapters calls_since_def new_layer_trace)
  have z: "lora_r (gating (test_weights 0 False 0 0)) + lora_r (intermediate (test_weights 0 False 0 0)) = 0"
    "lora_buf (new_layer Half False) = 0"
    by (simp_all add: test_weights_def dense_def new_layer_def)
  have nz: "(0 :: size_t) < lora_r (gating (test_weights 0 False 4 4)) + lora_r (intermediate (test_weights 0 False 4 4))"
    by (simp add: test_weights_def dense_def)
  have pol: "\<not> is_free_buffer_after_forward (new_layer Half False)"
    by (simp add: new_layer_def)
  have al: "lora_buf (allocated test_double 4 (test_weights 0 False 4 4) (new_layer Half False)) = 4384"
    by (simp add: allocated_def run_defs)
  note tA = adapter_workspace_allocation
         [where input_tensors = test_inputs and output_tensors = test_outputs,
          OF test_inputs_ffn_input(1) test_shape test_inputs_layer_id(1) test_outputs_ffn_output runA]
  note tB = adapter_workspace_allocation
         [where input_tensors = test_inputs_masked and output_tensors = test_outputs,
          OF test_inputs_ffn_input(2) test_shape test_inputs_layer_id(2) test_outputs_ffn_output runB]
  from tA z have a: "filter is_allocation (calls_since (new_layer Half False) (snd (forward test_double test_outputs test_inputs (test_weights 0 False 0 0) (new_layer Half False)))) = [ReMalloc 0 256 (Some False)]
           \<and> lora_buf (snd (forward test_double test_outputs test_inputs (test_weights 0 False 0 0) (new_layer Half False))) = 0"
    by (simp add: hdA)
  from tB have b1: "filter is_allocation (calls_since (new_layer Half False) (snd (forward test_double test_outputs test_inputs_masked (test_weights 0 False 4 4) (new_layer Half False))))
       = [ReMalloc 0 256 (Some False), ReMalloc 0 (2 * (4 * (4 + 4))) None]"
    by (simp add: hdB) (simp add: test_weights_def dense_def new_layer_def)
  from tB nz have "lora_buf (snd (forward test_double test_outputs test_inputs_masked (test_weights 0 False 4 4) (new_layer Half False)))
      = (if is_free_buffer_after_forward (new_layer Half False) then 0
         else lora_buf (allocated test_double 4 (test_weights 0 False 4 4) (new_layer Half False)))"
    by blast
  with pol al have b2: "lora_buf (snd (forward test_double test_outputs test_inputs_masked (test_weights 0 False 4 4) (new_layer Half False))) = 4384"
    by simp
  from a b1 b2 al z nz okA okB show ?thesis
    by simp
qed

text \<open>
  C8. For a call of \<^verbatim>\<open>forward\<close> that returns:
  \<^item> with the free-after-forward policy enabled, the last two calls are the releases of
    the gating buffer and of the adapter workspace, both handles are empty afterwards and
    the layer is marked as holding no allocation; a further release then does nothing;
  \<^item> with the policy disabled, nothing is released, the handles keep the pointers the
    allocator returned and the layer is marked as holding an allocation;
  \<^item> the next allocation presents the handles as the call left them to the allocator:
    empty ones after a release, so that the allocator has nothing to reuse, and the
    retained pointers otherwise;
  \<^item> \<^verbatim>\<open>freeBuffer\<close> on a layer that holds no allocation changes nothing.
\<close>

theorem free_after_forward_policy:
  assumes "input_tensors ''ffn_input'' = Some ffn_in" and "shape ffn_in = token_num # dims"
    and "input_tensors ''layer_id'' = Some lid"
    and "output_tensors ''ffn_output'' = Some ffn_out"
    and "forward E output_tensors input_tensors weights s = (None, s')"
  shows "(is_free_buffer_after_forward s \<longrightarrow>
            gating_buf s' = 0 \<and> lora_buf s' = 0 \<and> \<not> is_allocate_buffer s'
          \<and> (\<exists>before. calls_since s s' =
                 before @ [Free (gating_buf (allocated E token_num weights s)),
                           Free (lora_buf (allocated E token_num weights s))]
               \<and> filter is_release before = [])
          \<and> freeBuffer E s' = s')
       \<and> (\<not> is_free_buffer_after_forward s \<longrightarrow>
            gating_buf s' = gating_buf (allocated E token_num weights s)
          \<and> lora_buf s' = lora_buf (allocated E token_num weights s)
          \<and> is_allocate_buffer s'
          \<and> filter is_release (calls_since s s') = [])
       \<and> (allocateBuffer E n2 i2 f2 rg2 ri2 s' = (None, s'') \<longrightarrow>
            calls_since s' s'' =
              ReMalloc (if is_free_buffer_after_forward s then 0
                        else gating_buf (allocated E token_num weights s))
                (sizeof_T (dtype s) * (n2 * scast i2) * f2) (Some False)
              # (if rg2 + ri2 \<noteq> 0
                 then [ReMalloc (if is_free_buffer_after_forward s then 0
                                 else lora_buf (allocated E token_num weights s))
                         (sizeof_T (dtype s) * n2 * (rg2 + ri2)) None]
                 else []))
       \<and> (\<not> is_allocate_buffer s0 \<longrightarrow> freeBuffer E s0 = s0)"
proof (intro conjI impI)
  note h = forward_handles [OF assms]
  note c = forward_calls [OF assms]
  {
    assume f: "is_free_buffer_after_forward s"
    from h f show "gating_buf s' = 0" and "lora_buf s' = 0" and "\<not> is_allocate_buffer s'"
      by simp_all
    then show "freeBuffer E s' = s'"
      by (simp add: freeBuffer_def)
    let ?before = "take (length (calls_since s s') - 2) (calls_since s s')"
    from c f
    have "calls_since s s' =
            ?before @ [Free (gating_buf (allocated E token_num weights s)),
                       Free (lora_buf (allocated E token_num weights s))]
          \<and> filter is_release ?before = []"
      by (simp add: Let_def)
    then show "\<exists>before. calls_since s s' =
                 before @ [Free (gating_buf (allocated E token_num weights s)),
                           Free (lora_buf (allocated E token_num weights s))]
               \<and> filter is_release before = []"
      by blast
  }
  {
    assume f: "\<not> is_free_buffer_after_forward s"
    from h f show "gating_buf s' = gating_buf (allocated E token_num weights s)"
      and "lora_buf s' = lora_buf (allocated E token_num weights s)"
      and "is_allocate_buffer s'"
      by simp_all
    from c f show "filter is_release (calls_since s s') = []"
      by (simp add: Let_def)
  }
  {
    assume "allocateBuffer E n2 i2 f2 rg2 ri2 s' = (None, s'')"
    from allocateBuffer_ok(1) [OF this] h
    show "calls_since s' s'' =
              ReMalloc (if is_free_buffer_after_forward s then 0
                        else gating_buf (allocated E token_num weights s))
                (sizeof_T (dtype s) * (n2 * scast i2) * f2) (Some False)
              # (if rg2 + ri2 \<noteq> 0
                 then [ReMalloc (if is_free_buffer_after_forward s then 0
                                 else lora_buf (allocated E token_num weights s))
                         (sizeof_T (dtype s) * n2 * (rg2 + ri2)) None]
                 else [])"
      by (simp add: calls_since_def)
  }
  {
    assume "\<not> is_allocate_buffer s0"
    then show "freeBuffer E s0 = s0"
      by (simp add: freeBuffer_def)
  }
qed

theorem free_after_forward_policy_witness:
  "fst (forward test_double test_outputs test_inputs_masked (test_weights 64 False 4 4) (new_layer Half True)) = None
   \<and> is_free_buffer_after_forward (new_layer Half True)
   \<and> gating_buf (snd (forward test_double test_outputs test_inputs_masked (test_weights 64 False 4 4) (new_layer Half True))) = 0 \<and> lora_buf (snd (forward test_double test_outputs test_inputs_masked (test_weights 64 False 4 4) (new_layer Half True))) = 0 \<and> \<not> is_allocate_buffer (snd (forward test_double test_outputs test_inputs_masked (test_weights 64 False 4 4) (new_layer Half True)))
   \<and> freeBuffer test_double (snd (forward test_double test_outputs test_inputs_masked (test_weights 64 False 4 4) (new_layer Half True))) = snd (forward test_double test_outputs test_inputs_masked (test_weights 64 False 4 4) (new_layer Half True))
   \<and> fst (allocateBuffer test_double 4 16 2 4 4 (snd (forward test_double test_outputs test_inputs_masked (test_weights 64 False 4 4) (new_layer Half True)))) = None
   \<and> calls_since (snd (forward test_double test_outputs test_inputs_masked (test_weights 64 False 4 4) (new_layer Half True))) (snd (allocateBuffer test_double 4 16 2 4 4 (snd (forward test_double test_outputs test_inputs_masked (test_weights 64 False 4 4) (new_layer Half True)))))
       = [ReMalloc 0 256 (Some False), ReMalloc 0 64 None]
   \<and> \<not> is_allocate_buffer (new_layer Half True)
   \<and> freeBuffer test_double (new_layer Half True) = new_layer Half True
   \<and> fst (forward test_double test_outputs test_inputs_masked (test_weights 0 False 4 4) (new_layer Half False)) = None
   \<and> \<not> is_free_buffer_after_forward (new_layer Half False)
   \<and> gating_buf (snd (forward test_double test_outputs test_inputs_masked (test_weights 0 False 4 4) (new_layer Half False))) = 4096 \<and> lora_buf (snd (forward test_double test_outputs test_inputs_masked (test_weights 0 False 4 4) (new_layer Half False))) = 4384 \<and> is_allocate_buffer (snd (forward test_double test_outputs test_inputs_masked (test_weights 0 False 4 4) (new_layer Half False)))
   \<and> filter is_release (calls_since (new_layer Half False) (snd (forward test_double test_outputs test_inputs_masked (test_weights 0 False 4 4) (new_layer Half False)))) = []
   \<and> fst (allocateBuffer test_double 4 16 2 4 4 (snd (forward test_double test_outputs test_inputs_masked (test_weights 0 False 4 4) (new_layer Half False)))) = None
   \<and> calls_since (snd (forward test_double test_outputs test_inputs_masked (test_weights 0 False 4 4) (new_layer Half False))) (snd (allocateBuffer test_double 4 16 2 4 4 (snd (forward test_double test_outputs test_inputs_masked (test_weights 0 False 4 4) (new_layer Half False)))))
       = [ReMalloc 4096 256 (Some False), ReMalloc 4384 64 None]"
proof -
  have okC: "fst (forward test_double test_outputs test_inputs_masked (test_weights 64 False 4 4) (new_layer Half True)) = None"
    by (simp add: run_fused_unactivated)
  then have runC: "forward test_double test_outputs test_inputs_masked (test_weights 64 False 4 4) (new_layer Half True)
               = (None, snd (forward test_double test_outputs test_inputs_masked (test_weights 64 False 4 4) (new_layer Half True)))"
    by (simp add: prod_eq_iff)
  have okB: "fst (forward test_double test_outputs test_inputs_masked (test_weights 0 False 4 4) (new_layer Half False)) = None"
    by (simp add: run_unfused_adapters)
  then have runB: "forward test_double test_outputs test_inputs_masked (test_weights 0 False 4 4) (new_layer Half False)
               = (None, snd (forward test_double test_outputs test_inputs_masked (test_weights 0 False 4 4) (new_layer Half False)))"
    by (simp add: prod_eq_iff)
  have pol: "is_free_buffer_after_forward (new_layer Half True)"
    "\<not> is_free_buffer_after_forward (new_layer Half False)"
    "\<not> is_allocate_buffer (new_layer Half True)"
    "dtype (new_layer Half True) = Half" "dtype (new_layer Half False) = Half"
    by (simp_all add: new_layer_def)
  have alC: "fst (allocateBuffer test_double 4 16 2 4 4 (snd (forward test_double test_outputs test_inputs_masked (test_weights 64 False 4 4) (new_layer Half True)))) = None"
    by (simp add: run_fused_unactivated) (simp add: run_defs)
  then have allocC: "allocateBuffer test_double 4 16 2 4 4 (snd (forward test_double test_outputs test_inputs_masked (test_weights 64 False 4 4) (new_layer Half True)))
      = (None, snd (allocateBuffer test_double 4 16 2 4 4 (snd (forward test_double test_outputs test_inputs_masked (test_weights 64 False 4 4) (new_layer Half True)))))"
    by (simp add: prod_eq_iff)
  have alB: "fst (allocateBuffer test_double 4 16 2 4 4 (snd (forward test_double test_outputs test_inputs_masked (test_weights 0 False 4 4) (new_layer Half False)))) = None"
    by (simp add: run_unfused_adapters) (simp add: run_defs)
  then have allocB: "allocateBuffer test_double 4 16 2 4 4 (snd (forward test_double test_outputs test_inputs_masked (test_weights 0 False 4 4) (new_layer Half False)))
      = (None, snd (allocateBuffer test_double 4 16 2 4 4 (snd (forward test_double test_outputs test_inputs_masked (test_weights 0 False 4 4) (new_layer Half False)))))"
    by (simp add: prod_eq_iff)
  have s1B: "gating_buf (allocated test_double 4 (test_weights 0 False 4 4) (new_layer Half False)) = 4096"
    "lora_buf (allocated test_double 4 (test_weights 0 False 4 4) (new_layer Half False)) = 4384"
    by (simp_all add: allocated_def run_defs)
  from free_after_forward_policy
         [where input_tensors = test_inputs_masked and output_tensors = test_outputs and ?n2.0 = 4 and ?i2.0 = 16
            and ?f2.0 = 2 and ?rg2.0 = 4 and ?ri2.0 = 4 and ?s0.0 = "new_layer Half True"
            and s'' = "snd (allocateBuffer test_double 4 16 2 4 4 (snd (forward test_double test_outputs test_inputs_masked (test_weights 64 False 4 4) (new_layer Half True))))",
          OF test_inputs_ffn_input(2) test_shape test_inputs_layer_id(2) test_outputs_ffn_output runC]
  have c: "gating_buf (snd (forward test_double test_outputs test_inputs_masked (test_weights 64 False 4 4) (new_layer Half True))) = 0 \<and> lora_buf (snd (forward test_double test_outputs test_inputs_masked (test_weights 64 False 4 4) (new_layer Half True))) = 0 \<and> \<not> is_allocate_buffer (snd (forward test_double test_outputs test_inputs_masked (test_weights 64 False 4 4) (new_layer Half True)))
   \<and> freeBuffer test_double (snd (forward test_double test_outputs test_inputs_masked (test_weights 64 False 4 4) (new_layer Half True))) = snd (forward test_double test_outputs test_inputs_masked (test_weights 64 False 4 4) (new_layer Half True))
   \<and> calls_since (snd (forward test_double test_outputs test_inputs_masked (test_weights 64 False 4 4) (new_layer Half True))) (snd (allocateBuffer test_double 4 16 2 4 4 (snd (forward test_double test_outputs test_inputs_masked (test_weights 64 False 4 4) (new_layer Half True)))))
       = [ReMalloc 0 256 (Some False), ReMalloc 0 64 None]
   \<and> freeBuffer test_double (new_layer Half True) = new_layer Half True"
    using allocC pol by simp
  from free_after_forward_policy
         [where input_tensors = test_inputs_masked and output_tensors = test_outputs and ?n2.0 = 4 and ?i2.0 = 16
            and ?f2.0 = 2 and ?rg2.0 = 4 and ?ri2.0 = 4 and ?s0.0 = "new_layer Half True"
            and s'' = "snd (allocateBuffer test_double 4 16 2 4 4 (snd (forward test_double test_outputs test_inputs_masked (test_weights 0 False 4 4) (new_layer Half False))))",
          OF test_inputs_ffn_input(2) test_shape test_inputs_layer_id(2) test_outputs_ffn_output runB]
  have b: "gating_buf (snd (forward test_double test_outputs test_inputs_masked (test_weights 0 False 4 4) (new_layer Half False))) = 4096 \<and> lora_buf (snd (forward test_double test_outputs test_inputs_masked (test_weights 0 False 4 4) (new_layer Half False))) = 4384 \<and> is_allocate_buffer (snd (forward test_double test_outputs test_inputs_masked (test_weights 0 False 4 4) (new_layer Half False)))
   \<and> filter is_release (calls_since (new_layer Half False) (snd (forward test_double test_outputs test_inputs_masked (test_weights 0 False 4 4) (new_layer Half False)))) = []
   \<and> calls_since (snd (forward test_double test_outputs test_inputs_masked (test_weights 0 False 4 4) (new_layer Half False))) (snd (allocateBuffer test_double 4 16 2 4 4 (snd (forward test_double test_outputs test_inputs_masked (test_weights 0 False 4 4) (new_layer Half False)))))
       = [ReMalloc 4096 256 (Some False), ReMalloc 4384 64 None]"
    using allocB pol s1B by simp
  from b c okB okC alB alC pol show ?thesis
    by simp
qed






end
